theory Spec2Isabelle
  imports Complex_Main "HOL-Library.Sublist"
begin

section \<open>JavaScript values and the library behaviour the handlers rely on\<close>

text \<open>
  The handlers of the record API are modelled as functions on the database: a handler
  takes the collections and what it reads from the request, and returns the collections
  and the response. Several files of the repository are present in more than one
  snapshot; each section says which one it follows.

  A request field is read at the type of the schema path it is written to: a string
  field is \<open>None\<close> when the field is \<open>undefined\<close> and \<open>Some s\<close> when it is the
  string \<open>s\<close>; a number field is \<open>None\<close> or \<open>Some n\<close>. A character is a code unit
  below 256, a JSON number is a rational (rounding of doubles is left out).
  A value is falsy when it is \<open>undefined\<close>, the empty string or zero.
\<close>

definition truthy_string :: "string option \<Rightarrow> bool" where
  "truthy_string v = (case v of None \<Rightarrow> False | Some s \<Rightarrow> s \<noteq> [])"

definition truthy_number :: "rat option \<Rightarrow> bool" where
  "truthy_number v = (case v of None \<Rightarrow> False | Some n \<Rightarrow> n \<noteq> 0)"

text \<open>\<^verbatim>\<open>a || b\<close>: the left operand when it is truthy, the right one otherwise.\<close>

definition or_string :: "string option \<Rightarrow> string \<Rightarrow> string" where
  "or_string a b = (case a of None \<Rightarrow> b | Some s \<Rightarrow> if s \<noteq> [] then s else b)"

definition or_number :: "rat option \<Rightarrow> rat \<Rightarrow> rat" where
  "or_number a b = (case a of None \<Rightarrow> b | Some n \<Rightarrow> if n \<noteq> 0 then n else b)"

definition or_string_opt :: "string option \<Rightarrow> string option \<Rightarrow> string option" where
  "or_string_opt a b = (if truthy_string a then a else b)"

text \<open>\<^verbatim>\<open>x !== undefined ? x : d\<close>\<close>

definition defined_or :: "rat option \<Rightarrow> rat \<Rightarrow> rat" where
  "defined_or a d = (case a of None \<Rightarrow> d | Some n \<Rightarrow> n)"

text \<open>
  \<^verbatim>\<open>String.prototype.trim\<close>, which Mongoose applies to a path declared with
  \<^verbatim>\<open>trim: true\<close>, when a value is assigned and when a query condition on the path
  is cast: white space and line terminators are removed from both ends.
\<close>

definition is_space :: "char \<Rightarrow> bool" where
  "is_space c = (c \<in> set [CHR 0x09, CHR 0x0A, CHR 0x0B, CHR 0x0C, CHR 0x0D, CHR 0x20, CHR 0xA0])"

definition trim :: "string \<Rightarrow> string" where
  "trim s = rev (dropWhile is_space (rev (dropWhile is_space s)))"

text \<open>What a handler's \<^verbatim>\<open>catch\<close> block can receive.\<close>

datatype js_error = ValidationError | DuplicateKeyError | CastError | TypeError | SyntaxError

text \<open>
  The JSON body of a response: \<^verbatim>\<open>{success, message, error?, data?}\<close>, with the HTTP
  status. The text of \<^verbatim>\<open>error.message\<close> is the library's; the model keeps which
  error it was.
\<close>

record 'd response =
  status :: nat
  success :: bool
  message :: string
  error :: "js_error option"
  data :: "'d option"

definition respond :: "nat \<Rightarrow> bool \<Rightarrow> string \<Rightarrow> 'd response" where
  "respond code ok msg = \<lparr>status = code, success = ok, message = msg, error = None, data = None\<rparr>"

definition respond_data :: "nat \<Rightarrow> string \<Rightarrow> 'd \<Rightarrow> 'd response" where
  "respond_data code msg d = \<lparr>status = code, success = True, message = msg, error = None, data = Some d\<rparr>"

definition respond_error :: "string \<Rightarrow> js_error \<Rightarrow> 'd response" where
  "respond_error msg e = \<lparr>status = 500, success = False, message = msg, error = Some e, data = None\<rparr>"

section \<open>The StudentRecord collection (models/Student.js)\<close>

type_synonym object_id = nat

text \<open>
  A stored document. The paths \<open>studentId\<close> .. \<open>updatedBy\<close> are those of the schema;
  every creation path of the controllers gives the six string paths and the two number
  paths a value. The timestamps \<^verbatim>\<open>createdAt\<close> and \<^verbatim>\<open>updatedAt\<close> are left out.

  Modelled from the spec: the paths \<open>courseName\<close>, \<open>session\<close> (optional string) and
  \<open>editedBy\<close> (optional), which the later student controller writes, are missing from
  the schema file under src/.
\<close>

record student_record =
  oid :: object_id
  studentId :: string
  studentName :: string
  courseCode :: string
  courseName :: "string option"
  grade :: string
  numericGrade :: rat
  instructor :: string
  yearCompleted :: rat
  semester :: string
  session :: "string option"
  updatedBy :: "object_id option"
  editedBy :: "string option"

text \<open>
  The documents of the two other collections (the ActivityLog schema, models/User.js).
  A date is its time value, the milliseconds since the epoch. A log document is kept with
  its paths as they are before validation; \<open>log_timestamp\<close> has the default
  \<^verbatim>\<open>Date.now\<close>.
\<close>

datatype detail_value = Text string | Date int

record activity_log =
  log_user :: "object_id option"
  log_username :: "string option"
  log_userType :: "string option"
  log_action :: "string option"
  log_details :: "(string \<times> detail_value) list"
  log_ipAddress :: "string option"
  log_timestamp :: int

record user =
  user_oid :: object_id
  username :: string
  password_hash :: string
  password_salt :: string
  userType :: string
  name :: string
  email :: string
  active :: bool
  lastLogin :: "int option"

text \<open>
  The collections of the database, and the supply of fresh ObjectIds
  (\<^verbatim>\<open>new Model(...)\<close> draws the next one).
\<close>

record db =
  students :: "student_record list"
  users :: "user list"
  logs :: "activity_log list"
  next_oid :: object_id

text \<open>
  \<^verbatim>\<open>semesters\<close> of the configuration, the \<^verbatim>\<open>enum\<close> of the \<open>semester\<close> path.
\<close>

definition semesters :: "string list" where
  "semesters = [''First'', ''Second'', ''Third'']"

text \<open>
  The validators of the schema, run by \<^verbatim>\<open>save()\<close>: \<open>numericGrade\<close> in 0..100,
  \<open>yearCompleted\<close> in 1950..\<open>ymax\<close>, \<open>semester\<close> in the enum. \<open>ymax\<close> is
  \<^verbatim>\<open>new Date().getFullYear()\<close> as the schema file evaluates it, once, when the module is
  loaded. A document read from the collection is validated like a new one: the paths
  that no assignment changed hold values that passed before.
\<close>

definition validate_student :: "int \<Rightarrow> student_record \<Rightarrow> bool" where
  "validate_student ymax r =
     (0 \<le> numericGrade r \<and> numericGrade r \<le> 100 \<and>
      1950 \<le> yearCompleted r \<and> yearCompleted r \<le> of_int ymax \<and>
      semester r \<in> set semesters)"

text \<open>
  \<^verbatim>\<open>StudentRecord.findOne({studentId, courseCode})\<close>. A condition whose value is
  \<open>undefined\<close> reaches the database as \<open>null\<close> and matches a document whose path is
  null or missing; every stored document has both paths, so it matches none.
\<close>

definition key_matches :: "string option \<Rightarrow> string option \<Rightarrow> student_record \<Rightarrow> bool" where
  "key_matches sid cc r =
     (case sid of None \<Rightarrow> False | Some s \<Rightarrow>
        (case cc of None \<Rightarrow> False | Some c \<Rightarrow> studentId r = trim s \<and> courseCode r = trim c))"

definition findOne :: "student_record list \<Rightarrow> string option \<Rightarrow> string option \<Rightarrow> student_record option" where
  "findOne rs sid cc = find (key_matches sid cc) rs"

text \<open>\<^verbatim>\<open>findOne({studentId, courseCode, _id: {$ne: id}})\<close>\<close>

definition findOne_ne :: "student_record list \<Rightarrow> string option \<Rightarrow> string option \<Rightarrow> object_id \<Rightarrow> student_record option" where
  "findOne_ne rs sid cc i = find (\<lambda>r. key_matches sid cc r \<and> oid r \<noteq> i) rs"

definition findById :: "student_record list \<Rightarrow> object_id \<Rightarrow> student_record option" where
  "findById rs i = find (\<lambda>r. oid r = i) rs"

text \<open>
  The unique compound index \<^verbatim>\<open>{studentId: 1, courseCode: 1}\<close>: a write is refused
  with a duplicate-key error when another document holds the pair.
\<close>

definition index_conflict :: "student_record list \<Rightarrow> student_record \<Rightarrow> bool" where
  "index_conflict rs r =
     list_ex (\<lambda>x. oid x \<noteq> oid r \<and> studentId x = studentId r \<and> courseCode x = courseCode r) rs"

text \<open>\<^verbatim>\<open>save()\<close> of a new document: validation, then the insert.\<close>

definition save_new :: "int \<Rightarrow> db \<Rightarrow> student_record \<Rightarrow> js_error + db" where
  "save_new ymax st r =
     (if \<not> validate_student ymax r then Inl ValidationError
      else if index_conflict (students st) r then Inl DuplicateKeyError
      else Inr (st\<lparr>students := students st @ [r]\<rparr>))"

text \<open>\<^verbatim>\<open>save()\<close> of a document read from the collection: validation, then the update.\<close>

definition save_existing :: "int \<Rightarrow> db \<Rightarrow> student_record \<Rightarrow> js_error + db" where
  "save_existing ymax st r =
     (if \<not> validate_student ymax r then Inl ValidationError
      else if index_conflict (students st) r then Inl DuplicateKeyError
      else Inr (st\<lparr>students := map (\<lambda>x. if oid x = oid r then r else x) (students st)\<rparr>))"

section \<open>The student controller\<close>

text \<open>
  controllers/studentController.js, in the snapshot that has \<^verbatim>\<open>createSafeRegex\<close> and
  the fields \<open>courseName\<close>, \<open>session\<close> and \<open>editedBy\<close>. The other snapshot has the
  same \<^verbatim>\<open>createRecord\<close>, \<^verbatim>\<open>updateRecord\<close> and \<^verbatim>\<open>deleteRecord\<close> without these
  three fields (and without the assignment of \<open>updatedBy\<close>), and a record list that
  compares by equality.

  The fields a handler reads from \<^verbatim>\<open>req.body\<close> (or from an item of a bulk upload):
\<close>

record student_payload =
  body_studentId :: "string option"
  body_studentName :: "string option"
  body_courseCode :: "string option"
  body_courseName :: "string option"
  body_grade :: "string option"
  body_numericGrade :: "rat option"
  body_instructor :: "string option"
  body_yearCompleted :: "rat option"
  body_semester :: "string option"
  body_session :: "string option"
  body_updatedBy :: "object_id option"
  body_editedBy :: "string option"

text \<open>
  \<^verbatim>\<open>new StudentRecord({...})\<close> in \<^verbatim>\<open>createRecord\<close>: the defaults for falsy fields,
  the setters of the schema, a fresh \<^verbatim>\<open>_id\<close>. \<open>cy\<close> is
  \<^verbatim>\<open>new Date().getFullYear()\<close> at the time of the request.
\<close>

definition new_record :: "int \<Rightarrow> object_id \<Rightarrow> student_payload \<Rightarrow> student_record" where
  "new_record cy i b =
     \<lparr>oid = i,
      studentId = trim (or_string (body_studentId b) ''''),
      studentName = trim (or_string (body_studentName b) ''''),
      courseCode = trim (or_string (body_courseCode b) ''''),
      courseName = Some (or_string (body_courseName b) ''''),
      grade = trim (or_string (body_grade b) ''''),
      numericGrade = defined_or (body_numericGrade b) 70,
      instructor = trim (or_string (body_instructor b) ''Unknown''),
      yearCompleted = or_number (body_yearCompleted b) (of_int cy),
      semester = trim (or_string (body_semester b) ''First''),
      session = Some (or_string (body_session b) ''''),
      updatedBy = None,
      editedBy = None\<rparr>"

text \<open>\<^verbatim>\<open>exports.createRecord\<close> (POST /api/students)\<close>

definition createRecord :: "int \<Rightarrow> int \<Rightarrow> db \<Rightarrow> student_payload \<Rightarrow> db \<times> student_record response" where
  "createRecord ymax cy st b =
     (case findOne (students st) (body_studentId b) (body_courseCode b) of
        Some existingRecord \<Rightarrow>
          (st, respond 400 False ''A record for this student and course already exists'')
      | None \<Rightarrow>
          (let record = new_record cy (next_oid st) b;
               st1 = st\<lparr>next_oid := Suc (next_oid st)\<rparr>
           in case save_new ymax st1 record of
                Inl e \<Rightarrow> (st1, respond_error ''Error creating student record'' e)
              | Inr st2 \<Rightarrow> (st2, respond_data 201 ''Student record created successfully'' record)))"

text \<open>
  \<^verbatim>\<open>req.params.id\<close> as Mongoose casts it to an ObjectId: a well-formed identifier, or a
  string that is none, on which the query throws a CastError.
\<close>

datatype id_param = WellFormed object_id | Malformed

text \<open>
  The assignments of \<^verbatim>\<open>updateRecord\<close>, \<^verbatim>\<open>record.f = f || record.f\<close> and
  \<^verbatim>\<open>numericGrade !== undefined ? numericGrade : record.numericGrade\<close>, through the
  setters of the schema.
\<close>

definition assign_fields :: "student_record \<Rightarrow> student_payload \<Rightarrow> student_record" where
  "assign_fields record b = record
     \<lparr>studentId := trim (or_string (body_studentId b) (studentId record)),
      studentName := trim (or_string (body_studentName b) (studentName record)),
      courseCode := trim (or_string (body_courseCode b) (courseCode record)),
      courseName := or_string_opt (body_courseName b) (courseName record),
      grade := trim (or_string (body_grade b) (grade record)),
      numericGrade := defined_or (body_numericGrade b) (numericGrade record),
      instructor := trim (or_string (body_instructor b) (instructor record)),
      yearCompleted := or_number (body_yearCompleted b) (yearCompleted record),
      semester := trim (or_string (body_semester b) (semester record)),
      session := or_string_opt (body_session b) (session record),
      updatedBy := (case body_updatedBy b of Some u \<Rightarrow> Some u | None \<Rightarrow> updatedBy record),
      editedBy := or_string_opt (body_editedBy b) (editedBy record)\<rparr>"

text \<open>
  \<^verbatim>\<open>exports.updateRecord\<close> (PUT /api/students/:id). The uniqueness re-check runs only
  when \<open>studentId\<close> and \<open>courseCode\<close> are both truthy and one differs from the stored
  value.
\<close>

definition updateRecord :: "int \<Rightarrow> db \<Rightarrow> id_param \<Rightarrow> student_payload \<Rightarrow> db \<times> student_record response" where
  "updateRecord ymax st idp b =
     (case idp of
        Malformed \<Rightarrow> (st, respond_error ''Error updating student record'' CastError)
      | WellFormed i \<Rightarrow>
         (case findById (students st) i of
            None \<Rightarrow> (st, respond 404 False ''Student record not found'')
          | Some record \<Rightarrow>
             (let duplicateCheck =
                    (if truthy_string (body_studentId b) \<and> truthy_string (body_courseCode b) \<and>
                        (body_studentId b \<noteq> Some (studentId record) \<or>
                         body_courseCode b \<noteq> Some (courseCode record))
                     then findOne_ne (students st) (body_studentId b) (body_courseCode b) i
                     else None)
              in case duplicateCheck of
                   Some other \<Rightarrow>
                     (st, respond 400 False ''A record for this student and course already exists'')
                 | None \<Rightarrow>
                    (let record' = assign_fields record b
                     in case save_existing ymax st record' of
                          Inl e \<Rightarrow> (st, respond_error ''Error updating student record'' e)
                        | Inr st' \<Rightarrow>
                            (st', respond_data 200 ''Student record updated successfully'' record')))))"

text \<open>\<^verbatim>\<open>findByIdAndDelete\<close>: the first document with the id is removed and returned.\<close>

fun delete_first :: "object_id \<Rightarrow> student_record list \<Rightarrow> student_record list" where
  "delete_first i [] = []"
| "delete_first i (r # rs) = (if oid r = i then rs else r # delete_first i rs)"

text \<open>\<^verbatim>\<open>exports.deleteRecord\<close> (DELETE /api/students/:id)\<close>

definition deleteRecord :: "db \<Rightarrow> id_param \<Rightarrow> db \<times> unit response" where
  "deleteRecord st idp =
     (case idp of
        Malformed \<Rightarrow> (st, respond_error ''Error deleting student record'' CastError)
      | WellFormed i \<Rightarrow>
         (case findById (students st) i of
            None \<Rightarrow> (st, respond 404 False ''Student record not found'')
          | Some record \<Rightarrow>
              (st\<lparr>students := delete_first i (students st)\<rparr>,
               respond 200 True ''Student record deleted successfully'')))"

section \<open>Authorization middleware and the student routes\<close>

text \<open>What the middleware and the route read from a request.\<close>

record request =
  body_userType :: "string option"
  query_userType :: "string option"
  header_user_type :: "string option"
  params_id :: id_param

text \<open>A middleware calls \<^verbatim>\<open>next()\<close> or ends the request with a response.\<close>

datatype 'd step = Next | Done "'d response"

text \<open>
  \<^verbatim>\<open>exports.isAdmin\<close> of middleware/auth.js, in the snapshot that reads the user type
  from the body, the query string or the \<^verbatim>\<open>user-type\<close> header, and takes
  \<^verbatim>\<open>'instructor'\<close> when none is given.
\<close>

definition isAdmin :: "request \<Rightarrow> 'd step" where
  "isAdmin req =
     (let userType = or_string (body_userType req)
                       (or_string (query_userType req)
                          (or_string (header_user_type req) ''instructor''))
      in if userType = ''admin'' then Next
         else Done (respond 403 False ''Admin access required''))"

text \<open>
  routes/studentRoutes.js, in the snapshot that has the bulk upload routes:
  \<^verbatim>\<open>router.delete('/:id', studentController.deleteRecord)\<close>, under the comment
  \<^verbatim>\<open>temporarily no auth for testing\<close>. The handler is the only function of the route.
\<close>

definition delete_student_route :: "db \<Rightarrow> request \<Rightarrow> db \<times> unit response" where
  "delete_student_route st req = deleteRecord st (params_id req)"

text \<open>
  The other snapshot of the same file,
  \<^verbatim>\<open>router.delete('/:id', authMiddleware.isAdmin, studentController.deleteRecord)\<close>.
\<close>

definition delete_student_route_guarded :: "db \<Rightarrow> request \<Rightarrow> db \<times> unit response" where
  "delete_student_route_guarded st req =
     (case isAdmin req of
        Done r \<Rightarrow> (st, r)
      | Next \<Rightarrow> deleteRecord st (params_id req))"

section \<open>The bulk upload controller\<close>

text \<open>
  \<^verbatim>\<open>req.body.records\<close>: missing, a JSON value that is no array, or an array. An
  item of the array is an object, read through its fields, or the JSON value
  \<^verbatim>\<open>null\<close> (\<open>None\<close>), on which a property access throws a TypeError.
\<close>

datatype records_field = Missing | NotAnArray | Array "student_payload option list"

definition isArray :: "records_field \<Rightarrow> bool" where
  "isArray records = (case records of Array items \<Rightarrow> True | _ \<Rightarrow> False)"

definition array_length :: "records_field \<Rightarrow> nat" where
  "array_length records = (case records of Array items \<Rightarrow> length items | _ \<Rightarrow> 0)"

definition array_items :: "records_field \<Rightarrow> student_payload option list" where
  "array_items records = (case records of Array items \<Rightarrow> items | _ \<Rightarrow> [])"

record detail =
  detail_studentId :: "string option"
  detail_courseCode :: "string option"
  detail_status :: string
  detail_id :: "object_id option"
  detail_error :: "js_error option"

record results =
  created :: nat
  updated :: nat
  errors :: nat
  details :: "detail list"

text \<open>Decimal digits of a number, for the template strings of the messages.\<close>

definition digit_char :: "nat \<Rightarrow> char" where
  "digit_char d =
     (if d = 0 then CHR ''0'' else if d = 1 then CHR ''1'' else if d = 2 then CHR ''2''
      else if d = 3 then CHR ''3'' else if d = 4 then CHR ''4'' else if d = 5 then CHR ''5''
      else if d = 6 then CHR ''6'' else if d = 7 then CHR ''7'' else if d = 8 then CHR ''8''
      else CHR ''9'')"

function decimal :: "nat \<Rightarrow> string" where
  "decimal n = (if n < 10 then [digit_char n]
                else decimal (n div 10) @ [digit_char (n mod 10)])"
  by pat_completeness auto
termination
  by (relation "measure id") auto

declare decimal.simps [simp del]

text \<open>The assignments of the update branch, through the setters of the schema.\<close>

definition bulk_update :: "student_record \<Rightarrow> student_payload \<Rightarrow> student_record" where
  "bulk_update existingRecord item = existingRecord
     \<lparr>studentName := trim (or_string (body_studentName item) (studentName existingRecord)),
      grade := trim (or_string (body_grade item) (grade existingRecord)),
      numericGrade := defined_or (body_numericGrade item) (numericGrade existingRecord),
      instructor := trim (or_string (body_instructor item) (instructor existingRecord)),
      yearCompleted := or_number (body_yearCompleted item) (yearCompleted existingRecord),
      semester := trim (or_string (body_semester item) (semester existingRecord)),
      updatedBy := (case body_updatedBy item of Some u \<Rightarrow> Some u
                    | None \<Rightarrow> updatedBy existingRecord)\<rparr>"

text \<open>\<^verbatim>\<open>new StudentRecord({...})\<close> of the create branch.\<close>

definition bulk_new_record :: "int \<Rightarrow> object_id \<Rightarrow> student_payload \<Rightarrow> student_record" where
  "bulk_new_record cy i item =
     \<lparr>oid = i,
      studentId = trim (or_string (body_studentId item) []),
      studentName = trim (or_string (body_studentName item) []),
      courseCode = trim (or_string (body_courseCode item) []),
      courseName = None,
      grade = trim (or_string (body_grade item) []),
      numericGrade = defined_or (body_numericGrade item) 70,
      instructor = trim (or_string (body_instructor item) ''Unknown''),
      yearCompleted = or_number (body_yearCompleted item) (of_int cy),
      semester = trim (or_string (body_semester item) ''First''),
      session = None,
      updatedBy = body_updatedBy item,
      editedBy = None\<rparr>"

text \<open>The entry the inner \<^verbatim>\<open>catch\<close> block pushes.\<close>

definition error_detail :: "student_payload \<Rightarrow> js_error \<Rightarrow> detail" where
  "error_detail item e =
     \<lparr>detail_studentId = Some (or_string (body_studentId item) ''Unknown''),
      detail_courseCode = Some (or_string (body_courseCode item) ''Unknown''),
      detail_status = ''error'', detail_id = None, detail_error = Some e\<rparr>"

text \<open>The entry pushed after a successful \<^verbatim>\<open>save()\<close>.\<close>

definition ok_detail :: "student_payload \<Rightarrow> string \<Rightarrow> object_id \<Rightarrow> detail" where
  "ok_detail item outcome i =
     \<lparr>detail_studentId = body_studentId item, detail_courseCode = body_courseCode item,
      detail_status = outcome, detail_id = Some i, detail_error = None\<rparr>"

text \<open>
  One turn of the \<^verbatim>\<open>for (const item of records)\<close> loop: the body of the inner
  \<^verbatim>\<open>try\<close> and its \<^verbatim>\<open>catch\<close>. \<open>Inl\<close> is an exception that leaves the
  \<^verbatim>\<open>catch\<close> block itself: on a \<^verbatim>\<open>null\<close> item \<^verbatim>\<open>item.studentId\<close> throws in the
  \<^verbatim>\<open>try\<close> block, and again in the \<^verbatim>\<open>catch\<close> block after \<^verbatim>\<open>results.errors++\<close>.
\<close>

definition process_item :: "int \<Rightarrow> int \<Rightarrow> db \<Rightarrow> results \<Rightarrow> student_payload option \<Rightarrow> js_error + (db \<times> results)" where
  "process_item ymax cy st res it =
     (case it of
        None \<Rightarrow> Inl TypeError
      | Some item \<Rightarrow>
         (case findOne (students st) (body_studentId item) (body_courseCode item) of
            Some existingRecord \<Rightarrow>
              (case save_existing ymax st (bulk_update existingRecord item) of
                 Inr st' \<Rightarrow>
                   Inr (st', res\<lparr>updated := updated res + 1,
                          details := details res @ [ok_detail item ''updated'' (oid existingRecord)]\<rparr>)
               | Inl e \<Rightarrow>
                   Inr (st, res\<lparr>errors := errors res + 1,
                          details := details res @ [error_detail item e]\<rparr>))
          | None \<Rightarrow>
              (let newRecord = bulk_new_record cy (next_oid st) item;
                   st1 = st\<lparr>next_oid := Suc (next_oid st)\<rparr>
               in case save_new ymax st1 newRecord of
                    Inr st2 \<Rightarrow>
                      Inr (st2, res\<lparr>created := created res + 1,
                             details := details res @ [ok_detail item ''created'' (oid newRecord)]\<rparr>)
                  | Inl e \<Rightarrow>
                      Inr (st1, res\<lparr>errors := errors res + 1,
                             details := details res @ [error_detail item e]\<rparr>))))"

text \<open>
  The loop. An exception that leaves a turn leaves the loop; what the earlier turns
  wrote stays written.
\<close>

fun bulk_loop :: "int \<Rightarrow> int \<Rightarrow> db \<Rightarrow> results \<Rightarrow> student_payload option list \<Rightarrow> db \<times> (js_error + results)" where
  "bulk_loop ymax cy st res [] = (st, Inr res)"
| "bulk_loop ymax cy st res (it # its) =
     (case process_item ymax cy st res it of
        Inl e \<Rightarrow> (st, Inl e)
      | Inr (st', res') \<Rightarrow> bulk_loop ymax cy st' res' its)"

text \<open>The message of the final response, a template string.\<close>

definition bulk_message :: "nat \<Rightarrow> results \<Rightarrow> string" where
  "bulk_message n res =
     ''Processed '' @ decimal n @ '' records: '' @ decimal (created res) @ '' created, '' @
     decimal (updated res) @ '' updated, '' @ decimal (errors res) @ '' errors''"

text \<open>
  \<^verbatim>\<open>exports.bulkUploadRecords\<close> (POST /api/students/bulk-upload). The two tests are
  the operands of \<^verbatim>\<open>!Array.isArray(records) || records.length === 0\<close>, in order.
\<close>

definition bulkUploadRecords :: "int \<Rightarrow> int \<Rightarrow> db \<Rightarrow> records_field \<Rightarrow> db \<times> results response" where
  "bulkUploadRecords ymax cy st records =
     (if \<not> isArray records then (st, respond 400 False ''Invalid or empty records array'')
      else if array_length records = 0
      then (st, respond 400 False ''Invalid or empty records array'')
      else
        (case bulk_loop ymax cy st \<lparr>created = 0, updated = 0, errors = 0, details = []\<rparr>
                (array_items records) of
           (st', Inl e) \<Rightarrow> (st', respond_error ''Error processing bulk upload'' e)
         | (st', Inr res) \<Rightarrow>
             (st', respond_data 200 (bulk_message (array_length records) res) res)))"

section \<open>The validation middleware and the update route\<close>

text \<open>
  \<^verbatim>\<open>validateStudentRecord\<close> of middleware/validation.js: the messages it collects, in
  order. \<open>cy\<close> is \<^verbatim>\<open>new Date().getFullYear()\<close>. A number of the payload is never
  \<open>NaN\<close>, so the two \<^verbatim>\<open>isNaN\<close> tests add no message.
\<close>

definition student_errors :: "int \<Rightarrow> student_payload \<Rightarrow> string list" where
  "student_errors cy b =
     (if \<not> truthy_string (body_studentId b) then [''Student ID is required''] else []) @
     (if \<not> truthy_string (body_studentName b) then [''Student name is required''] else []) @
     (if \<not> truthy_string (body_courseCode b) then [''Course code is required''] else []) @
     (if \<not> truthy_string (body_grade b) then [''Grade is required''] else []) @
     (if body_numericGrade b = None then [''Numeric grade is required''] else []) @
     (if \<not> truthy_string (body_instructor b) then [''Instructor is required''] else []) @
     (if \<not> truthy_number (body_yearCompleted b) then [''Year completed is required''] else []) @
     (if \<not> truthy_string (body_semester b) then [''Semester is required''] else []) @
     (case body_yearCompleted b of
        None \<Rightarrow> []
      | Some y \<Rightarrow>
          if y \<noteq> 0 \<and> (y < 1950 \<or> y > of_int cy)
          then [''Year completed must be between 1950 and '' @ decimal (nat cy)] else []) @
     (case body_numericGrade b of
        None \<Rightarrow> []
      | Some n \<Rightarrow>
          if n < 0 \<or> n > 100 then [''Numeric grade must be between 0 and 100''] else []) @
     (case body_semester b of
        None \<Rightarrow> []
      | Some s \<Rightarrow>
          if s \<noteq> [] \<and> s \<notin> set [''First'', ''Second'', ''Third'', ''1'', ''2'', ''3'']
          then [''Semester must be one of: First, Second, Third, 1, 2, 3''] else [])"

text \<open>
  The middleware answers 400 when there is a message, with the list as \<^verbatim>\<open>errors\<close>, and
  calls \<^verbatim>\<open>next()\<close> otherwise.
\<close>

definition validateStudentRecord :: "int \<Rightarrow> student_payload \<Rightarrow> 'd step" where
  "validateStudentRecord cy b =
     (let errors = student_errors cy b
      in if length errors > 0 then Done (respond 400 False ''Validation error'') else Next)"

text \<open>
  routes/studentRoutes.js, in both snapshots:
  \<^verbatim>\<open>router.put('/:id', validationMiddleware.validateStudentRecord, studentController.updateRecord)\<close>.
  An older snapshot of the routes has \<^verbatim>\<open>authMiddleware.canEditRecords\<close> before the two.
\<close>

definition put_student_route :: "int \<Rightarrow> int \<Rightarrow> db \<Rightarrow> id_param \<Rightarrow> student_payload
                                   \<Rightarrow> db \<times> student_record response" where
  "put_student_route ymax cy st idp b =
     (case validateStudentRecord cy b of
        Done r \<Rightarrow> (st, r)
      | Next \<Rightarrow> updateRecord ymax st idp b)"

section \<open>The activity log controller\<close>

text \<open>
  controllers/activityLogController.js and the schema of models/ActivityLog.js.

  The validators of the ActivityLog schema: \<open>user\<close>, \<open>username\<close>, \<open>userType\<close> and
  \<open>action\<close> are \<^verbatim>\<open>required\<close>; a required string path refuses \<open>undefined\<close> and the
  empty string.
\<close>

definition validate_log :: "activity_log \<Rightarrow> bool" where
  "validate_log l =
     (log_user l \<noteq> None \<and> truthy_string (log_username l) \<and>
      truthy_string (log_userType l) \<and> truthy_string (log_action l))"

text \<open>\<^verbatim>\<open>save()\<close> of a new log document.\<close>

definition save_log :: "db \<Rightarrow> activity_log \<Rightarrow> js_error + db" where
  "save_log st l =
     (if validate_log l then Inr (st\<lparr>logs := logs st @ [l]\<rparr>) else Inl ValidationError)"

record log_payload =
  req_user :: "string option"
  req_username :: "string option"
  req_userType :: "string option"
  req_action :: "string option"
  req_details :: "(string \<times> detail_value) list option"
  req_ipAddress :: "string option"

text \<open>
  \<^verbatim>\<open>exports.createLog\<close> (POST /api/logs). \<open>ObjectId\<close> is the cast of a string to an
  ObjectId, a function of the library: \<^verbatim>\<open>mongoose.Types.ObjectId.isValid(user)\<close>
  holds when the cast gives one. \<open>now\<close> is \<^verbatim>\<open>Date.now()\<close>. The \<^verbatim>\<open>catch\<close> block
  answers 500 without an \<^verbatim>\<open>error\<close> field.
\<close>

definition createLog :: "(string \<Rightarrow> object_id option) \<Rightarrow> int \<Rightarrow> db \<Rightarrow> log_payload \<Rightarrow> db \<times> unit response" where
  "createLog ObjectId now st b =
     (let logData_user =
            (case req_user b of
               None \<Rightarrow> None
             | Some user \<Rightarrow>
                 if user \<noteq> [] \<and> user \<noteq> ''unknown'' \<and> ObjectId user \<noteq> None
                 then ObjectId user else None);
          log = \<lparr>log_user = logData_user,
                 log_username = req_username b,
                 log_userType = req_userType b,
                 log_action = map_option trim (req_action b),
                 log_details = (case req_details b of None \<Rightarrow> [] | Some d \<Rightarrow> d),
                 log_ipAddress = map_option trim (req_ipAddress b),
                 log_timestamp = now\<rparr>
      in case save_log st log of
           Inr st' \<Rightarrow> (st', respond 201 True ''Activity log created successfully'')
         | Inl e \<Rightarrow> (st, respond 500 False ''Error creating activity log''))"

text \<open>
  \<^verbatim>\<open>parseInt(string)\<close> without a radix: leading white space is skipped, then an optional
  sign, then an optional \<^verbatim>\<open>0x\<close> prefix (radix 16), then the longest run of digits of
  the radix; \<open>None\<close> is \<open>NaN\<close>.
\<close>

definition digit_of :: "nat \<Rightarrow> char \<Rightarrow> nat option" where
  "digit_of R c =
     (let n = (of_char c :: nat);
          v = (if 48 \<le> n \<and> n \<le> 57 then Some (n - 48)
               else if 97 \<le> n \<and> n \<le> 122 then Some (n - 87)
               else if 65 \<le> n \<and> n \<le> 90 then Some (n - 55)
               else None)
      in case v of None \<Rightarrow> None | Some d \<Rightarrow> if d < R then Some d else None)"

fun leading_digits :: "nat \<Rightarrow> string \<Rightarrow> nat list" where
  "leading_digits R [] = []"
| "leading_digits R (c # cs) =
     (case digit_of R c of None \<Rightarrow> [] | Some d \<Rightarrow> d # leading_digits R cs)"

definition strip_sign :: "string \<Rightarrow> bool \<times> string" where
  "strip_sign s =
     (case s of
        [] \<Rightarrow> (False, [])
      | c # cs \<Rightarrow> if c = CHR ''-'' then (True, cs)
                  else if c = CHR ''+'' then (False, cs) else (False, s))"

definition strip_radix :: "string \<Rightarrow> nat \<times> string" where
  "strip_radix s =
     (case s of
        a # b # cs \<Rightarrow> if a = CHR ''0'' \<and> (b = CHR ''x'' \<or> b = CHR ''X'') then (16, cs) else (10, s)
      | _ \<Rightarrow> (10, s))"

definition parseInt :: "string \<Rightarrow> int option" where
  "parseInt s =
     (case strip_sign (dropWhile is_space s) of
        (negative, s1) \<Rightarrow>
          (case strip_radix s1 of
             (R, s2) \<Rightarrow>
               (let ds = leading_digits R s2
                in if ds = [] then None
                   else Some ((if negative then - 1 else 1) *
                              int (foldl (\<lambda>a d. a * R + d) 0 ds)))))"


text \<open>
  The local time of a \<^verbatim>\<open>Date\<close>, as ECMAScript defines it:
  \<^verbatim>\<open>LocalTime(t) = t + LocalTZA(t, true)\<close> and \<^verbatim>\<open>UTC(t) = t - LocalTZA(t, false)\<close>, where
  \<open>LocalTZA\<close> is the offset of the time zone of the process in milliseconds, at a UTC
  time value (\<open>True\<close>) or at a local one (\<open>False\<close>). \<^verbatim>\<open>TimeClip\<close> gives an invalid
  date (\<open>None\<close>) outside the range of time values.
\<close>

type_synonym time_zone = "int \<Rightarrow> bool \<Rightarrow> int"

definition ms_per_day :: int where
  "ms_per_day = 86400000"

definition LocalTime :: "time_zone \<Rightarrow> int \<Rightarrow> int" where
  "LocalTime LocalTZA t = t + LocalTZA t True"

definition UTC :: "time_zone \<Rightarrow> int \<Rightarrow> int" where
  "UTC LocalTZA t = t - LocalTZA t False"





section \<open>The authentication controller\<close>

text \<open>
  controllers/authController.js, in the snapshot that writes a LOGIN entry to the
  activity log; the other snapshot is the same handler without that entry.
\<close>

record session_user =
  session_id :: object_id
  session_username :: string
  session_userType :: string
  session_name :: string

text \<open>
  A field of the JSON body that the handler passes on to a filter: a string, or an
  object, which a filter reads as query operators. Of the operators,
  \<^verbatim>\<open>{"$ne": s}\<close> is modelled.
\<close>

datatype field_value = Plain string | Ne string

record login_body =
  login_username :: "field_value option"
  login_password :: "string option"
  login_userType :: "field_value option"

record login_data =
  data_id :: object_id
  data_username :: string
  data_userType :: string
  data_name :: string
  data_email :: string

text \<open>
  \<^verbatim>\<open>validateLogin\<close> of middleware/validation.js: the three fields must be truthy, and
  an object is. The response carries the list of messages as \<^verbatim>\<open>errors\<close>.
\<close>

definition truthy_field :: "field_value option \<Rightarrow> bool" where
  "truthy_field v = (case v of None \<Rightarrow> False | Some (Plain s) \<Rightarrow> s \<noteq> [] | Some (Ne s) \<Rightarrow> True)"

definition login_errors :: "login_body \<Rightarrow> string list" where
  "login_errors b =
     (if \<not> truthy_field (login_username b) then [''Username is required''] else []) @
     (if \<not> truthy_string (login_password b) then [''Password is required''] else []) @
     (if \<not> truthy_field (login_userType b) then [''User type is required''] else [])"

definition validateLogin :: "login_body \<Rightarrow> 'd step" where
  "validateLogin b =
     (let errors = login_errors b
      in if length errors > 0 then Done (respond 400 False ''Validation error'') else Next)"

text \<open>
  \<^verbatim>\<open>User.findOne({username, userType})\<close>. A string condition selects the users whose
  path equals it, \<^verbatim>\<open>{"$ne": s}\<close> those whose path differs from it; the operand is cast
  as the path is, so \<open>username\<close> has the \<^verbatim>\<open>trim\<close> setter and \<open>userType\<close> has none.
  An \<open>undefined\<close> condition matches no stored user.
\<close>

definition condition_holds :: "(string \<Rightarrow> string) \<Rightarrow> field_value \<Rightarrow> string \<Rightarrow> bool" where
  "condition_holds setter c v = (case c of Plain s \<Rightarrow> v = setter s | Ne s \<Rightarrow> v \<noteq> setter s)"

definition user_matches :: "field_value option \<Rightarrow> field_value option \<Rightarrow> user \<Rightarrow> bool" where
  "user_matches un ut u =
     (case un of None \<Rightarrow> False | Some n \<Rightarrow>
        (case ut of None \<Rightarrow> False | Some t \<Rightarrow>
           condition_holds trim n (username u) \<and> condition_holds (\<lambda>s. s) t (userType u)))"

definition findOne_user :: "user list \<Rightarrow> field_value option \<Rightarrow> field_value option \<Rightarrow> user option" where
  "findOne_user us un ut = find (user_matches un ut) us"

text \<open>
  \<^verbatim>\<open>cryptoUtil.verifyPassword\<close>; \<open>hashPassword\<close> stands for the PBKDF2 call of
  utils/crypto.js.
\<close>

definition verifyPassword :: "(string \<Rightarrow> string \<Rightarrow> string) \<Rightarrow> string \<Rightarrow> string \<Rightarrow> string \<Rightarrow> bool" where
  "verifyPassword hashPassword password storedHash storedSalt =
     (hashPassword password storedSalt = storedHash)"

text \<open>
  \<^verbatim>\<open>exports.login\<close> (POST /api/auth/login), on the database and the session of the
  request. \<open>ip\<close> is \<^verbatim>\<open>req.ip || req.connection.remoteAddress\<close>. An \<open>undefined\<close>
  password makes the hash function throw. The LOGIN entry is written in a
  \<^verbatim>\<open>try\<close> of its own, and a failure of it is dropped.
\<close>

definition login :: "(string \<Rightarrow> string \<Rightarrow> string) \<Rightarrow> int \<Rightarrow> string option \<Rightarrow> db \<Rightarrow> session_user option \<Rightarrow> login_body
                       \<Rightarrow> db \<times> session_user option \<times> login_data response" where
  "login hashPassword now ip st sess b =
     (case findOne_user (users st) (login_username b) (login_userType b) of
        None \<Rightarrow> (st, sess, respond 401 False ''Invalid credentials'')
      | Some user \<Rightarrow>
         (case login_password b of
            None \<Rightarrow> (st, sess, respond_error ''Error during login'' TypeError)
          | Some password \<Rightarrow>
              if \<not> verifyPassword hashPassword password (password_hash user) (password_salt user)
              then (st, sess, respond 401 False ''Invalid credentials'')
              else
                (let user' = user\<lparr>lastLogin := Some now\<rparr>;
                     st1 = st\<lparr>users := map (\<lambda>u. if user_oid u = user_oid user then user' else u) (users st)\<rparr>;
                     sess' = Some \<lparr>session_id = user_oid user, session_username = username user,
                                   session_userType = userType user, session_name = name user\<rparr>;
                     activityLog = \<lparr>log_user = Some (user_oid user),
                                    log_username = Some (or_string (Some (name user)) (username user)),
                                    log_userType = Some (userType user),
                                    log_action = Some ''LOGIN'',
                                    log_details = [(''timestamp'', Date now)],
                                    log_ipAddress = map_option trim ip,
                                    log_timestamp = now\<rparr>;
                     st2 = (case save_log st1 activityLog of Inr st' \<Rightarrow> st' | Inl logError \<Rightarrow> st1)
                 in (st2, sess',
                     respond_data 200 ''Login successful''
                       \<lparr>data_id = user_oid user, data_username = username user,
                        data_userType = userType user, data_name = name user,
                        data_email = email user\<rparr>))))"

text \<open>
  routes/authRoutes.js:
  \<^verbatim>\<open>router.post('/login', validationMiddleware.validateLogin, authController.login)\<close>
\<close>

definition login_route :: "(string \<Rightarrow> string \<Rightarrow> string) \<Rightarrow> int \<Rightarrow> string option \<Rightarrow> db \<Rightarrow> session_user option
                             \<Rightarrow> login_body \<Rightarrow> db \<times> session_user option \<times> login_data response" where
  "login_route hashPassword now ip st sess b =
     (case validateLogin b of
        Done r \<Rightarrow> (st, sess, r)
      | Next \<Rightarrow> login hashPassword now ip st sess b)"

section \<open>The record list and its text filters\<close>

text \<open>
  The character class \<^verbatim>\<open>[-\/\\^$*+?.()|[\]{}]\<close> of \<^verbatim>\<open>createSafeRegex\<close>
  (\<^verbatim>\<open>CHR 0x5C\<close> is the backslash).
\<close>

definition in_escape_class :: "char \<Rightarrow> bool" where
  "in_escape_class c = (c \<in> set ''-/^$*+?.()|[]{}'' \<or> c = CHR 0x5C)"

text \<open>\<^verbatim>\<open>term.replace(/[-\/\\^$*+?.()|[\]{}]/g, '\\$&')\<close>\<close>

fun escape_term :: "string \<Rightarrow> string" where
  "escape_term [] = []"
| "escape_term (c # cs) =
     (if in_escape_class c then CHR 0x5C # c # escape_term cs else c # escape_term cs)"

text \<open>
  A fragment of the regular expressions that \<^verbatim>\<open>new RegExp(source, 'i')\<close> accepts:
  a sequence of atoms, each a character or the wildcard \<^verbatim>\<open>.\<close>, each with an optional
  quantifier \<^verbatim>\<open>*\<close>, \<^verbatim>\<open>+\<close> or \<^verbatim>\<open>?\<close>. A source is read token by token: a
  backslash before a character that is no letter or digit gives that character; an
  unescaped syntax character is the wildcard, a quantifier, or an operator outside the
  fragment (\<open>Other\<close>), as is a backslash before a letter or digit or at the end.
\<close>

datatype atom = Char char | AnyChar

datatype quantifier = Once | ZeroOrMore | OneOrMore | ZeroOrOne

datatype token = Atom atom | Quant quantifier | Other

type_synonym regexp = "(atom \<times> quantifier) list"

definition is_alnum :: "char \<Rightarrow> bool" where
  "is_alnum c =
     (let n = (of_char c :: nat)
      in (48 \<le> n \<and> n \<le> 57) \<or> (65 \<le> n \<and> n \<le> 90) \<or> (97 \<le> n \<and> n \<le> 122))"

definition escaped :: "char \<Rightarrow> token" where
  "escaped c = (if is_alnum c then Other else Atom (Char c))"

definition unescaped :: "char \<Rightarrow> token" where
  "unescaped c =
     (if c = CHR ''.'' then Atom AnyChar
      else if c = CHR ''*'' then Quant ZeroOrMore
      else if c = CHR ''+'' then Quant OneOrMore
      else if c = CHR ''?'' then Quant ZeroOrOne
      else if c \<in> set ''^$()[]{}|'' \<or> c = CHR 0x5C then Other
      else Atom (Char c))"

fun tokens :: "string \<Rightarrow> token list" where
  "tokens [] = []"
| "tokens [c] = [unescaped c]"
| "tokens (c # d # cs) =
     (if c = CHR 0x5C then escaped d # tokens cs else unescaped c # tokens (d # cs))"

fun parse :: "token list \<Rightarrow> regexp option" where
  "parse [] = Some []"
| "parse (Atom a # Quant q # ts) = map_option ((#) (a, q)) (parse ts)"
| "parse (Atom a # ts) = map_option ((#) (a, Once)) (parse ts)"
| "parse (Quant q # ts) = None"
| "parse (Other # ts) = None"

text \<open>
  \<^verbatim>\<open>new RegExp(source, 'i')\<close>: \<open>None\<close> when the source is not in the fragment (it
  may be a syntax error, on which the constructor throws).
\<close>

definition RegExp :: "string \<Rightarrow> regexp option" where
  "RegExp source = parse (tokens source)"

text \<open>
  A value of \<^verbatim>\<open>req.query\<close> as the query parser gives it: a string; an array, for a key
  that is given more than once; an object, for a key with a bracketed name.
\<close>

datatype query_value = Str string | Arr "query_value list" | Obj "(string \<times> query_value) list"

text \<open>
  \<^verbatim>\<open>createSafeRegex\<close> of \<^verbatim>\<open>getAllRecords\<close>. Only a string has a \<^verbatim>\<open>replace\<close>
  method: on an array or an object the call \<^verbatim>\<open>term.replace(...)\<close> throws a TypeError.
  A source outside the fragment is given as a SyntaxError.
\<close>

definition createSafeRegex :: "query_value \<Rightarrow> js_error + regexp" where
  "createSafeRegex term' =
     (case term' of
        Str s \<Rightarrow>
          (let escapedTerm = escape_term s
           in case RegExp escapedTerm of None \<Rightarrow> Inl SyntaxError | Some r \<Rightarrow> Inr r)
      | Arr xs \<Rightarrow> Inl TypeError
      | Obj kvs \<Rightarrow> Inl TypeError)"

text \<open>
  Matching with the flag \<^verbatim>\<open>i\<close>: two characters match when \<open>canon\<close>, the
  case folding of the engine, maps them to the same character; the wildcard matches any
  character but a line terminator. \<open>match_here\<close> matches at the start of the string,
  \<open>search\<close> anywhere in it, as \<^verbatim>\<open>$regex\<close> does.
\<close>

fun matches_atom :: "(char \<Rightarrow> char) \<Rightarrow> atom \<Rightarrow> char \<Rightarrow> bool" where
  "matches_atom canon (Char c) x = (canon c = canon x)"
| "matches_atom canon AnyChar x = (x \<noteq> CHR 0x0A \<and> x \<noteq> CHR 0x0D)"

fun match_here :: "(char \<Rightarrow> char) \<Rightarrow> regexp \<Rightarrow> string \<Rightarrow> bool" where
  "match_here canon [] s = True"
| "match_here canon ((a, Once) # r) [] = False"
| "match_here canon ((a, Once) # r) (x # xs) = (matches_atom canon a x \<and> match_here canon r xs)"
| "match_here canon ((a, ZeroOrOne) # r) [] = match_here canon r []"
| "match_here canon ((a, ZeroOrOne) # r) (x # xs) =
     (match_here canon r (x # xs) \<or> (matches_atom canon a x \<and> match_here canon r xs))"
| "match_here canon ((a, ZeroOrMore) # r) [] = match_here canon r []"
| "match_here canon ((a, ZeroOrMore) # r) (x # xs) =
     (match_here canon r (x # xs) \<or>
      (matches_atom canon a x \<and> match_here canon ((a, ZeroOrMore) # r) xs))"
| "match_here canon ((a, OneOrMore) # r) [] = False"
| "match_here canon ((a, OneOrMore) # r) (x # xs) =
     (matches_atom canon a x \<and> match_here canon ((a, ZeroOrMore) # r) xs)"

fun search :: "(char \<Rightarrow> char) \<Rightarrow> regexp \<Rightarrow> string \<Rightarrow> bool" where
  "search canon r [] = match_here canon r []"
| "search canon r (x # xs) = (match_here canon r (x # xs) \<or> search canon r xs)"

text \<open>Case folding of the ASCII letters, for the examples.\<close>

definition ascii_upper :: "char \<Rightarrow> char" where
  "ascii_upper c =
     (case map_of (zip ''abcdefghijklmnopqrstuvwxyz'' ''ABCDEFGHIJKLMNOPQRSTUVWXYZ'') c of
        None \<Rightarrow> c | Some u \<Rightarrow> u)"

text \<open>
  The query string of GET /api/students, as far as the filter reads it. The text keys
  have the values the query parser gives; \<open>grade\<close>, \<open>yearCompleted\<close> and \<open>semester\<close>
  are read here for keys that are given once.
\<close>

record list_query =
  query_courseCode :: "query_value option"
  query_studentId :: "query_value option"
  query_studentName :: "query_value option"
  query_instructor :: "query_value option"
  query_grade :: "string option"
  query_yearCompleted :: "string option"
  query_semester :: "string option"

text \<open>
  The \<^verbatim>\<open>filter\<close> object: a regular expression for each text key that is given, an
  exact value for \<open>grade\<close>, \<open>yearCompleted\<close> (\<open>Some None\<close> is \<open>NaN\<close>) and
  \<open>semester\<close>.
\<close>

record student_filter =
  filter_courseCode :: "regexp option"
  filter_studentId :: "regexp option"
  filter_studentName :: "regexp option"
  filter_instructor :: "regexp option"
  filter_grade :: "string option"
  filter_yearCompleted :: "int option option"
  filter_semester :: "string option"

text \<open>The test \<^verbatim>\<open>if (req.query.k)\<close>: the empty string is falsy, arrays and objects are truthy.\<close>

definition truthy_value :: "query_value option \<Rightarrow> bool" where
  "truthy_value q = (case q of None \<Rightarrow> False | Some (Str s) \<Rightarrow> s \<noteq> [] | Some v \<Rightarrow> True)"

text \<open>
  \<^verbatim>\<open>if (req.query.k) filter.k = { $regex: createSafeRegex(req.query.k) }\<close>: \<open>Inl\<close> is
  the exception that \<^verbatim>\<open>createSafeRegex\<close> throws.
\<close>

definition text_condition :: "query_value option \<Rightarrow> js_error + regexp option" where
  "text_condition q =
     (if truthy_value q
      then (case q of
              None \<Rightarrow> Inr None
            | Some t \<Rightarrow> (case createSafeRegex t of Inl e \<Rightarrow> Inl e | Inr r \<Rightarrow> Inr (Some r)))
      else Inr None)"

definition exact_condition :: "string option \<Rightarrow> string option" where
  "exact_condition q = (if truthy_string q then q else None)"

definition build_filter :: "list_query \<Rightarrow> js_error + student_filter" where
  "build_filter q =
     (case text_condition (query_courseCode q) of Inl e \<Rightarrow> Inl e | Inr cc \<Rightarrow>
     (case text_condition (query_studentId q) of Inl e \<Rightarrow> Inl e | Inr sid \<Rightarrow>
     (case text_condition (query_studentName q) of Inl e \<Rightarrow> Inl e | Inr sn \<Rightarrow>
     (case text_condition (query_instructor q) of Inl e \<Rightarrow> Inl e | Inr ins \<Rightarrow>
        Inr \<lparr>filter_courseCode = cc, filter_studentId = sid, filter_studentName = sn,
             filter_instructor = ins,
             filter_grade = exact_condition (query_grade q),
             filter_yearCompleted =
               (case exact_condition (query_yearCompleted q) of None \<Rightarrow> None
                | Some y \<Rightarrow> Some (parseInt y)),
             filter_semester = exact_condition (query_semester q)\<rparr>))))"

text \<open>A document against the filter, as the database evaluates it.\<close>

definition regex_condition :: "(char \<Rightarrow> char) \<Rightarrow> regexp option \<Rightarrow> string \<Rightarrow> bool" where
  "regex_condition canon c v = (case c of None \<Rightarrow> True | Some r \<Rightarrow> search canon r v)"

definition matches_filter :: "(char \<Rightarrow> char) \<Rightarrow> student_filter \<Rightarrow> student_record \<Rightarrow> bool" where
  "matches_filter canon f r =
     (regex_condition canon (filter_courseCode f) (courseCode r) \<and>
      regex_condition canon (filter_studentId f) (studentId r) \<and>
      regex_condition canon (filter_studentName f) (studentName r) \<and>
      regex_condition canon (filter_instructor f) (instructor r) \<and>
      (case filter_grade f of None \<Rightarrow> True | Some g \<Rightarrow> grade r = trim g) \<and>
      (case filter_yearCompleted f of None \<Rightarrow> True | Some None \<Rightarrow> False
       | Some (Some y) \<Rightarrow> yearCompleted r = of_int y) \<and>
      (case filter_semester f of None \<Rightarrow> True | Some s \<Rightarrow> semester r = trim s))"

text \<open>
  \<^verbatim>\<open>exports.getAllRecords\<close> (GET /api/students), up to the documents the filter
  selects: the response carries their number as \<^verbatim>\<open>total\<close> and one page of them,
  sorted, as \<^verbatim>\<open>data\<close>; sorting and paging are left out. An exception of
  \<^verbatim>\<open>createSafeRegex\<close> is caught by the handler's \<^verbatim>\<open>catch\<close>, which answers 500; a
  \<open>NaN\<close> year makes the cast of the query throw.
\<close>

definition getAllRecords :: "(char \<Rightarrow> char) \<Rightarrow> db \<Rightarrow> list_query \<Rightarrow> student_record list response" where
  "getAllRecords canon st q =
     (case build_filter q of
        Inl e \<Rightarrow> respond_error ''Error fetching student records'' e
      | Inr filter' \<Rightarrow>
          if filter_yearCompleted filter' = Some None
          then respond_error ''Error fetching student records'' CastError
          else respond_data 200 [] (filter (matches_filter canon filter') (students st)))"

text \<open>
  The other snapshot of \<^verbatim>\<open>exports.getAllRecords\<close> (controllers/studentController.js) has
  no \<^verbatim>\<open>createSafeRegex\<close>: it reads \<open>courseCode\<close>, \<open>studentId\<close>, \<open>instructor\<close>,
  \<open>yearCompleted\<close> and \<open>semester\<close>, with \<^verbatim>\<open>if (req.query.k) filter.k = req.query.k\<close>,
  which the database compares by equality. Its query string is read here for keys that
  are given once.
\<close>

record equality_query =
  eq_courseCode :: "string option"
  eq_studentId :: "string option"
  eq_instructor :: "string option"
  eq_yearCompleted :: "string option"
  eq_semester :: "string option"

definition getAllRecords_equality :: "db \<Rightarrow> equality_query \<Rightarrow> student_record list response" where
  "getAllRecords_equality st q =
     (let year = (case exact_condition (eq_yearCompleted q) of None \<Rightarrow> None
                  | Some y \<Rightarrow> Some (parseInt y))
      in if year = Some None
         then respond_error ''Error fetching student records'' CastError
         else respond_data 200 []
                (filter (\<lambda>r.
                    (case exact_condition (eq_courseCode q) of None \<Rightarrow> True
                     | Some c \<Rightarrow> courseCode r = trim c) \<and>
                    (case exact_condition (eq_studentId q) of None \<Rightarrow> True
                     | Some i \<Rightarrow> studentId r = trim i) \<and>
                    (case exact_condition (eq_instructor q) of None \<Rightarrow> True
                     | Some i \<Rightarrow> instructor r = trim i) \<and>
                    (case year of None \<Rightarrow> True | Some None \<Rightarrow> False
                     | Some (Some y) \<Rightarrow> yearCompleted r = of_int y) \<and>
                    (case exact_condition (eq_semester q) of None \<Rightarrow> True
                     | Some s \<Rightarrow> semester r = trim s))
                  (students st)))"

section \<open>Example data\<close>

definition empty_db :: db where
  "empty_db = \<lparr>students = [], users = [], logs = [], next_oid = 0\<rparr>"

definition example_payload :: student_payload where
  "example_payload =
     \<lparr>body_studentId = Some ''S1'', body_studentName = Some ''Ada'',
      body_courseCode = Some ''PHYS101'', body_courseName = None, body_grade = Some ''A'',
      body_numericGrade = Some 95, body_instructor = None, body_yearCompleted = Some 2020,
      body_semester = Some ''First'', body_session = None, body_updatedBy = None,
      body_editedBy = None\<rparr>"

definition second_payload :: student_payload where
  "second_payload =
     example_payload\<lparr>body_studentId := Some ''S2'', body_studentName := Some ''Grace''\<rparr>"

definition one_record_db :: db where
  "one_record_db = empty_db\<lparr>students := [new_record 2024 0 example_payload], next_oid := 1\<rparr>"

definition instructor_delete_request :: request where
  "instructor_delete_request =
     \<lparr>body_userType = None, query_userType = None, header_user_type = Some ''instructor'',
      params_id = WellFormed 0\<rparr>"

definition example_log_payload :: log_payload where
  "example_log_payload =
     \<lparr>req_user = Some ''unknown'', req_username = Some ''alice'', req_userType = Some ''admin'',
      req_action = Some ''LOGIN'', req_details = None, req_ipAddress = Some ''10.0.0.1''\<rparr>"

definition two_record_db :: db where
  "two_record_db =
     empty_db\<lparr>students := [new_record 2024 0 example_payload, new_record 2024 1 second_payload],
              next_oid := 2\<rparr>"

definition falsy_payload :: student_payload where
  "falsy_payload =
     \<lparr>body_studentId = Some [], body_studentName = Some [],
      body_courseCode = None, body_courseName = Some [], body_grade = Some ''B'',
      body_numericGrade = Some 0, body_instructor = None, body_yearCompleted = Some 0,
      body_semester = Some [], body_session = None, body_updatedBy = None,
      body_editedBy = Some []\<rparr>"

definition zero_grade_payload :: student_payload where
  "zero_grade_payload = example_payload\<lparr>body_numericGrade := Some 0\<rparr>"


definition only_studentId_payload :: student_payload where
  "only_studentId_payload =
     \<lparr>body_studentId = Some ''S2'', body_studentName = None,
      body_courseCode = None, body_courseName = None, body_grade = None,
      body_numericGrade = None, body_instructor = None, body_yearCompleted = None,
      body_semester = None, body_session = None, body_updatedBy = None,
      body_editedBy = None\<rparr>"


definition example_now :: int where
  "example_now = 1700000000000"



definition new_york_2023 :: time_zone where
  "new_york_2023 t isUTC =
     (if isUTC
      then (if 1678604400000 \<le> t \<and> t < 1699164000000 then - 14400000 else - 18000000)
      else (if 1678590000000 \<le> t \<and> t < 1699149600000 then - 14400000 else - 18000000))"


definition example_hash :: "string \<Rightarrow> string \<Rightarrow> string" where
  "example_hash password salt = salt @ password"

definition alice :: user where
  "alice = \<lparr>user_oid = 0, username = ''alice'', password_hash = ''NaClsecret'',
             password_salt = ''NaCl'', userType = ''admin'', name = ''Alice'',
             email = ''alice@example.org'', active = True, lastLogin = None\<rparr>"

definition alice_db :: db where
  "alice_db = empty_db\<lparr>users := [alice], next_oid := 1\<rparr>"

text \<open>
  The body \<^verbatim>\<open>{"username": "alice", "password": "secret", "userType": {"$ne": "instructor"}}\<close>
\<close>

definition operator_login :: login_body where
  "operator_login =
     \<lparr>login_username = Some (Plain ''alice''), login_password = Some ''secret'',
      login_userType = Some (Ne ''instructor'')\<rparr>"

definition obrien_record :: student_record where
  "obrien_record = new_record 2024 0
     (example_payload\<lparr>body_studentName := Some ''Liam O'Brien'', body_instructor := Some ''Prof A+B''\<rparr>)"

definition aab_record :: student_record where
  "aab_record = new_record 2024 1
     (second_payload\<lparr>body_studentName := Some ''Nora O'Brien'', body_instructor := Some ''Prof AAB''\<rparr>)"

definition list_db :: db where
  "list_db = empty_db\<lparr>students := [obrien_record, aab_record], next_oid := 2\<rparr>"

definition literal_query :: list_query where
  "literal_query =
     \<lparr>query_courseCode = None, query_studentId = None,
      query_studentName = Some (Str ''o'brien''), query_instructor = Some (Str ''a+b''),
      query_grade = None, query_yearCompleted = Some ''2020'', query_semester = None\<rparr>"

text \<open>The query string \<^verbatim>\<open>?instructor=a&instructor=b\<close>\<close>

definition repeated_key_query :: list_query where
  "repeated_key_query =
     \<lparr>query_courseCode = None, query_studentId = None, query_studentName = None,
      query_instructor = Some (Arr [Str ''a'', Str ''b'']),
      query_grade = None, query_yearCompleted = None, query_semester = None\<rparr>"

text \<open>The query string \<^verbatim>\<open>?instructor=a%2Bb\<close>, for the snapshot that compares by equality.\<close>

definition instructor_query :: equality_query where
  "instructor_query =
     \<lparr>eq_courseCode = None, eq_studentId = None, eq_instructor = Some ''a+b'',
      eq_yearCompleted = None, eq_semester = None\<rparr>"

section \<open>Notions the properties are stated with\<close>

text \<open>The number of entries of a \<^verbatim>\<open>details\<close> list with a given status.\<close>

definition count_status :: "string \<Rightarrow> detail list \<Rightarrow> nat" where
  "count_status s ds = length (filter (\<lambda>d. detail_status d = s) ds)"

definition tallies_agree :: "results \<Rightarrow> bool" where
  "tallies_agree res =
     (created res = count_status ''created'' (details res) \<and>
      updated res = count_status ''updated'' (details res) \<and>
      errors res = count_status ''error'' (details res))"

text \<open>
  The string paths of a stored document hold what the \<^verbatim>\<open>trim\<close> setter returned, so
  trimming them again changes nothing.
\<close>

definition schema_trimmed :: "student_record \<Rightarrow> bool" where
  "schema_trimmed r =
     (trim (studentId r) = studentId r \<and> trim (studentName r) = studentName r \<and>
      trim (courseCode r) = courseCode r \<and> trim (grade r) = grade r \<and>
      trim (instructor r) = instructor r \<and> trim (semester r) = semester r)"

text \<open>
  The record list as the specification words it: a text key that is given, as a string,
  selects the records whose field contains the input, compared character by character
  after case folding; \<open>grade\<close>, \<open>yearCompleted\<close> and \<open>semester\<close> select by equality. A key
  that is missing or empty selects every record.
\<close>

definition contains_ci :: "(char \<Rightarrow> char) \<Rightarrow> string \<Rightarrow> string \<Rightarrow> bool" where
  "contains_ci canon t v = sublist (map canon t) (map canon v)"

definition string_valued :: "query_value option \<Rightarrow> bool" where
  "string_valued q = (case q of None \<Rightarrow> True | Some (Str t) \<Rightarrow> True | Some v \<Rightarrow> False)"

definition text_key_spec :: "(char \<Rightarrow> char) \<Rightarrow> query_value option \<Rightarrow> string \<Rightarrow> bool" where
  "text_key_spec canon q v = (case q of Some (Str t) \<Rightarrow> contains_ci canon t v | _ \<Rightarrow> True)"

definition exact_key_spec :: "string option \<Rightarrow> string \<Rightarrow> bool" where
  "exact_key_spec q v = (case q of None \<Rightarrow> True | Some t \<Rightarrow> t = [] \<or> v = trim t)"

definition year_key_spec :: "string option \<Rightarrow> rat \<Rightarrow> bool" where
  "year_key_spec q v =
     (case q of None \<Rightarrow> True
      | Some t \<Rightarrow> t = [] \<or> (case parseInt t of None \<Rightarrow> False | Some y \<Rightarrow> v = of_int y))"

definition list_filter_spec :: "(char \<Rightarrow> char) \<Rightarrow> list_query \<Rightarrow> student_record \<Rightarrow> bool" where
  "list_filter_spec canon q r =
     (text_key_spec canon (query_courseCode q) (courseCode r) \<and>
      text_key_spec canon (query_studentId q) (studentId r) \<and>
      text_key_spec canon (query_studentName q) (studentName r) \<and>
      text_key_spec canon (query_instructor q) (instructor r) \<and>
      exact_key_spec (query_grade q) (grade r) \<and>
      year_key_spec (query_yearCompleted q) (yearCompleted r) \<and>
      exact_key_spec (query_semester q) (semester r))"

text \<open>
  The instant whose local date and time, in the time zone, are those of \<open>now\<close> moved
  back by \<open>d\<close> days.
\<close>

definition days_before :: "time_zone \<Rightarrow> int \<Rightarrow> int \<Rightarrow> int" where
  "days_before LocalTZA now d = UTC LocalTZA (LocalTime LocalTZA now - d * ms_per_day)"

text \<open>
  The invariant of the StudentRecord collection: identifiers come from the supply and
  are distinct, no two documents hold the same (studentId, courseCode) pair, and the
  string paths are trimmed.
\<close>

definition record_key :: "student_record \<Rightarrow> string \<times> string" where
  "record_key r = (studentId r, courseCode r)"

definition store_ok :: "db \<Rightarrow> bool" where
  "store_ok st =
     (list_all (\<lambda>r. oid r < next_oid st) (students st) \<and>
      distinct (map oid (students st)) \<and>
      distinct (map record_key (students st)) \<and>
      list_all schema_trimmed (students st))"

section \<open>Properties of the handlers\<close>

subsection \<open>Lists and keys\<close>

lemma find_None_filter: "find P xs = None \<Longrightarrow> filter P xs = []"
  by (induction xs) (auto split: if_splits)

lemma find_append_hit: "find P xs = None \<Longrightarrow> P x \<Longrightarrow> find P (xs @ [x]) = Some x"
  by (induction xs) (auto split: if_splits)

lemma key_matches_new_record:
  "body_studentId b = Some s \<Longrightarrow> body_courseCode b = Some c \<Longrightarrow>
   key_matches (Some s) (Some c) (new_record cy i b)"
  by (simp add: key_matches_def new_record_def or_string_def)

lemma no_match_no_conflict:
  "find (key_matches (Some s) (Some c)) rs = None \<Longrightarrow> key_matches (Some s) (Some c) r \<Longrightarrow>
   \<not> index_conflict rs r"
  by (induction rs) (auto simp: index_conflict_def key_matches_def split: if_splits)

lemma trim_examples:
  "trim ''S1'' = ''S1''" "trim ''PHYS101'' = ''PHYS101''" "trim ''First'' = ''First''"
  "trim ''Ada'' = ''Ada''" "trim ''A'' = ''A''" "trim ''B'' = ''B''"
  "trim ''Unknown'' = ''Unknown''" "trim ''S2'' = ''S2''" "trim ''Grace'' = ''Grace''"
  "trim [] = []"
  by (simp_all add: trim_def is_space_def)

lemmas example_eval =
  one_record_db_def two_record_db_def empty_db_def example_payload_def second_payload_def
  new_record_def findById_def findOne_ne_def key_matches_def
  assign_fields_def save_existing_def validate_student_def index_conflict_def semesters_def
  truthy_string_def truthy_number_def or_string_def or_number_def or_string_opt_def defined_or_def
  trim_examples Let_def

subsection \<open>Trimming\<close>

lemma dropWhile_fixed: "xs = [] \<or> \<not> P (hd xs) \<Longrightarrow> dropWhile P xs = xs"
  by (cases xs) auto

lemma dropWhile_head: "dropWhile P xs = [] \<or> \<not> P (hd (dropWhile P xs))"
  by (induction xs) auto

lemma rev_dropWhile_rev_prefix:
  "rev (dropWhile P (rev xs)) @ rev (takeWhile P (rev xs)) = xs"
proof -
  have "rev (takeWhile P (rev xs) @ dropWhile P (rev xs)) = xs"
    by simp
  then show ?thesis by (simp only: rev_append)
qed

lemma trim_fixed_front:
  assumes "xs = [] \<or> \<not> P (hd xs)"
  shows "dropWhile P (rev (dropWhile P (rev xs))) = rev (dropWhile P (rev xs))"
proof (cases "dropWhile P (rev xs) = []")
  case True
  show ?thesis unfolding True by simp
next
  case False
  let ?t = "rev (dropWhile P (rev xs))"
  have ne: "?t \<noteq> []" using False by simp
  have "?t @ rev (takeWhile P (rev xs)) = xs" by (rule rev_dropWhile_rev_prefix)
  then have "hd ?t = hd xs" using ne by (metis hd_append2)
  moreover have "xs \<noteq> []" using ne \<open>?t @ rev (takeWhile P (rev xs)) = xs\<close> by auto
  ultimately have "\<not> P (hd ?t)" using assms by simp
  then show ?thesis by (intro dropWhile_fixed) simp
qed

lemma trim_idem: "trim (trim s) = trim s"
proof -
  let ?d = "dropWhile is_space"
  have front: "?d (rev (?d (rev (?d s)))) = rev (?d (rev (?d s)))"
    by (rule trim_fixed_front) (rule dropWhile_head)
  show ?thesis
    unfolding trim_def front by simp
qed

text \<open>Every record the handlers build or assign to has trimmed string paths.\<close>

lemma new_record_trimmed: "schema_trimmed (new_record cy i b)"
  by (simp add: schema_trimmed_def new_record_def trim_idem)

lemma bulk_new_record_trimmed: "schema_trimmed (bulk_new_record cy i b)"
  by (simp add: schema_trimmed_def bulk_new_record_def trim_idem)

lemma assign_fields_trimmed: "schema_trimmed (assign_fields r b)"
  by (simp add: schema_trimmed_def assign_fields_def trim_idem)

lemma bulk_update_trimmed: "schema_trimmed r \<Longrightarrow> schema_trimmed (bulk_update r b)"
  by (simp add: schema_trimmed_def bulk_update_def trim_idem)

subsection \<open>Creating a record twice\<close>

text \<open>
  C1. A payload that gives \<open>studentId\<close> and \<open>courseCode\<close> and whose record passes the
  validators of the schema is created (201) when no record holds the pair; a second
  create with the same pair, whatever its other fields, is answered 400 with the
  conflict message and leaves the database as it is, so that exactly one record holds
  the pair afterwards.
\<close>

theorem create_twice:
  assumes sid: "body_studentId b = Some s" and cc: "body_courseCode b = Some c"
    and valid: "validate_student ymax (new_record cy (next_oid st) b)"
    and fresh: "findOne (students st) (Some s) (Some c) = None"
    and sid': "body_studentId b' = Some s" and cc': "body_courseCode b' = Some c"
  shows "\<exists>st1. createRecord ymax cy st b =
            (st1, respond_data 201 ''Student record created successfully''
                    (new_record cy (next_oid st) b))
          \<and> createRecord ymax' cy' st1 b' =
            (st1, respond 400 False ''A record for this student and course already exists'')
          \<and> length (filter (key_matches (Some s) (Some c)) (students st1)) = 1"
proof -
  let ?r = "new_record cy (next_oid st) b"
  let ?st1 = "st\<lparr>next_oid := Suc (next_oid st), students := students st @ [?r]\<rparr>"
  have km: "key_matches (Some s) (Some c) ?r"
    using sid cc by (rule key_matches_new_record)
  have none: "find (key_matches (Some s) (Some c)) (students st) = None"
    using fresh by (simp add: findOne_def)
  have nc: "\<not> index_conflict (students st) ?r"
    using none km by (rule no_match_no_conflict)
  have first: "createRecord ymax cy st b =
      (?st1, respond_data 201 ''Student record created successfully'' ?r)"
    using sid cc fresh valid nc by (simp add: createRecord_def save_new_def Let_def)
  have hit: "findOne (students ?st1) (body_studentId b') (body_courseCode b') = Some ?r"
    using none km sid' cc' by (simp add: findOne_def find_append_hit)
  have second: "createRecord ymax' cy' ?st1 b' =
      (?st1, respond 400 False ''A record for this student and course already exists'')"
    using hit by (simp add: createRecord_def)
  have one: "length (filter (key_matches (Some s) (Some c)) (students ?st1)) = 1"
    using none km by (simp add: find_None_filter)
  show ?thesis using first second one by blast
qed

theorem create_twice_witness:
  "\<exists>st1. createRecord 2024 2024 empty_db example_payload =
            (st1, respond_data 201 ''Student record created successfully''
                    (new_record 2024 (next_oid empty_db) example_payload))
          \<and> createRecord 2024 2025 st1 (example_payload\<lparr>body_grade := Some ''B''\<rparr>) =
            (st1, respond 400 False ''A record for this student and course already exists'')
          \<and> length (filter (key_matches (Some ''S1'') (Some ''PHYS101'')) (students st1)) = 1"
  using create_twice [where b = example_payload and s = "''S1''" and c = "''PHYS101''"
      and ymax = 2024 and cy = 2024 and st = empty_db
      and b' = "example_payload\<lparr>body_grade := Some ''B''\<rparr>" and ymax' = 2024 and cy' = 2025]
  by (simp add: example_payload_def empty_db_def findOne_def validate_student_def new_record_def
      or_string_def or_number_def defined_or_def semesters_def trim_examples)

subsection \<open>Bulk upload\<close>

text \<open>
  C10. When \<^verbatim>\<open>records\<close> is missing or no array, and when it is the empty array, the
  handler answers 400 with the message \<^verbatim>\<open>Invalid or empty records array\<close> and the
  database is the one it was given.
\<close>

theorem bulk_invalid_records:
  "bulkUploadRecords ymax cy st Missing =
     (st, respond 400 False ''Invalid or empty records array'') \<and>
   bulkUploadRecords ymax cy st NotAnArray =
     (st, respond 400 False ''Invalid or empty records array'') \<and>
   bulkUploadRecords ymax cy st (Array []) =
     (st, respond 400 False ''Invalid or empty records array'')"
  by (simp add: bulkUploadRecords_def isArray_def array_length_def)

text \<open>
  C2, at the input \<^verbatim>\<open>[item, null, item]\<close>: the \<^verbatim>\<open>null\<close> item throws in the
  \<^verbatim>\<open>try\<close> block and again in the \<^verbatim>\<open>catch\<close> block, the loop is left, and the
  handler answers 500 without a details list. The first item has been written, the
  third is never looked at.
\<close>

theorem bulk_null_item_aborts:
  "bulkUploadRecords 2024 2024 empty_db (Array [Some example_payload, None, Some second_payload]) =
     (empty_db\<lparr>students := [bulk_new_record 2024 0 example_payload], next_oid := 1\<rparr>,
      respond_error ''Error processing bulk upload'' TypeError)"
  by (simp add: bulkUploadRecords_def isArray_def array_length_def array_items_def
      process_item_def empty_db_def example_payload_def
      findOne_def save_new_def validate_student_def bulk_new_record_def index_conflict_def
      or_string_def or_number_def defined_or_def semesters_def trim_examples)

text \<open>
  On a list of objects the loop does what is asked of it: a turn always ends with one
  more entry in the details list, whether the item was created, updated or failed, and
  the three counters are the numbers of entries with each status.
\<close>

lemma process_item_object:
  assumes "tallies_agree res"
  shows "\<exists>st' res'. process_item ymax cy st res (Some item) = Inr (st', res') \<and>
           length (details res') = Suc (length (details res)) \<and> tallies_agree res'"
  using assms
  by (auto simp add: process_item_def tallies_agree_def count_status_def ok_detail_def
      error_detail_def Let_def split: option.splits sum.splits)

lemma bulk_loop_objects:
  assumes "tallies_agree res"
  shows "\<exists>st' res'. bulk_loop ymax cy st res (map Some items) = (st', Inr res') \<and>
           length (details res') = length (details res) + length items \<and> tallies_agree res'"
  using assms
proof (induction items arbitrary: st res)
  case Nil
  then show ?case by simp
next
  case (Cons item items)
  from process_item_object [OF Cons.prems, of ymax cy st item]
  obtain st1 res1 where p: "process_item ymax cy st res (Some item) = Inr (st1, res1)"
    and l: "length (details res1) = Suc (length (details res))" and t: "tallies_agree res1"
    by blast
  from Cons.IH [OF t, of st1]
  obtain st2 res2 where q: "bulk_loop ymax cy st1 res1 (map Some items) = (st2, Inr res2)"
    and l2: "length (details res2) = length (details res1) + length items"
    and t2: "tallies_agree res2"
    by blast
  show ?case using p q l l2 t2 by simp
qed

lemma bulk_objects_all_reported:
  assumes "items \<noteq> []"
  shows "\<exists>st' res. bulkUploadRecords ymax cy st (Array (map Some items)) =
             (st', respond_data 200 (bulk_message (length items) res) res) \<and>
           length (details res) = length items \<and>
           created res = count_status ''created'' (details res) \<and>
           updated res = count_status ''updated'' (details res) \<and>
           errors res = count_status ''error'' (details res)"
proof -
  have t0: "tallies_agree \<lparr>created = 0, updated = 0, errors = 0, details = []\<rparr>"
    by (simp add: tallies_agree_def count_status_def)
  from bulk_loop_objects [OF t0, of ymax cy st items]
  obtain st' res' where
    q: "bulk_loop ymax cy st \<lparr>created = 0, updated = 0, errors = 0, details = []\<rparr> (map Some items)
          = (st', Inr res')"
    and l: "length (details res') = length items" and t: "tallies_agree res'"
    by auto
  have "bulkUploadRecords ymax cy st (Array (map Some items)) =
          (st', respond_data 200 (bulk_message (length items) res') res')"
    using assms q by (simp add: bulkUploadRecords_def isArray_def array_length_def array_items_def)
  then show ?thesis using l t unfolding tallies_agree_def by blast
qed

subsection \<open>Deleting a record\<close>

text \<open>
  C7, at a DELETE request for an existing record whose \<^verbatim>\<open>user-type\<close> header says
  \<^verbatim>\<open>instructor\<close>: the route has no middleware, the handler runs, the record is
  removed and the answer is 200.
\<close>

theorem instructor_delete_not_refused:
  "delete_student_route one_record_db instructor_delete_request =
     (one_record_db\<lparr>students := []\<rparr>, respond 200 True ''Student record deleted successfully'')"
  by (simp add: delete_student_route_def deleteRecord_def instructor_delete_request_def
      one_record_db_def findById_def new_record_def)

text \<open>
  The other snapshot of the route, with \<^verbatim>\<open>isAdmin\<close> before the handler, refuses the
  same request and keeps the record; it lets through a request that declares
  \<^verbatim>\<open>admin\<close>.
\<close>

lemma guarded_route_refuses_instructor:
  "delete_student_route_guarded one_record_db instructor_delete_request =
     (one_record_db, respond 403 False ''Admin access required'')"
  by (simp add: delete_student_route_guarded_def isAdmin_def instructor_delete_request_def
      or_string_def)

lemma guarded_route_refuses:
  assumes "or_string (body_userType req)
             (or_string (query_userType req) (or_string (header_user_type req) ''instructor''))
           \<noteq> ''admin''"
  shows "delete_student_route_guarded st req = (st, respond 403 False ''Admin access required'')"
  using assms by (simp add: delete_student_route_guarded_def isAdmin_def)

lemma guarded_route_admits_admin:
  assumes "or_string (body_userType req)
             (or_string (query_userType req) (or_string (header_user_type req) ''instructor''))
           = ''admin''"
  shows "delete_student_route_guarded st req = deleteRecord st (params_id req)"
  using assms by (simp add: delete_student_route_guarded_def isAdmin_def)

subsection \<open>Appending to the activity log\<close>

text \<open>
  C6, at a body whose \<^verbatim>\<open>user\<close> is the string \<^verbatim>\<open>unknown\<close> and whose other fields are
  given: the document is built without a user reference, the schema requires one,
  \<^verbatim>\<open>save()\<close> throws, and the handler answers 500; nothing is stored.
\<close>

theorem createLog_unknown_user_rejected:
  "createLog ObjectId now st example_log_payload =
     (st, respond 500 False ''Error creating activity log'')"
  by (simp add: createLog_def example_log_payload_def save_log_def validate_log_def)

text \<open>The same holds for every reference that is missing, empty, or no ObjectId.\<close>

lemma createLog_without_reference:
  assumes "req_user b = None \<or> req_user b = Some [] \<or> req_user b = Some ''unknown'' \<or>
           (\<exists>u. req_user b = Some u \<and> ObjectId u = None)"
  shows "createLog ObjectId now st b = (st, respond 500 False ''Error creating activity log'')"
  using assms by (auto simp add: createLog_def save_log_def validate_log_def)

subsection \<open>Updating a record\<close>

lemma findById_oid: "findById rs i = Some r \<Longrightarrow> oid r = i"
  unfolding findById_def by (induction rs) (auto split: if_splits)

lemma findById_replace:
  "findById rs i = Some r \<Longrightarrow> oid r' = i \<Longrightarrow>
   findById (map (\<lambda>x. if oid x = oid r' then r' else x) rs) i = Some r'"
  unfolding findById_def by (induction rs) (auto split: if_splits)

lemma oid_assign_fields: "oid (assign_fields r b) = oid r"
  by (simp add: assign_fields_def)

text \<open>The outcomes of an update of a record that exists.\<close>

lemma updateRecord_outcomes:
  assumes found: "findById (students st) i = Some r"
  shows "(\<exists>resp. updateRecord ymax st (WellFormed i) b = (st, resp) \<and> status resp \<noteq> 200) \<or>
         (\<exists>st'. updateRecord ymax st (WellFormed i) b =
                  (st', respond_data 200 ''Student record updated successfully'' (assign_fields r b)) \<and>
                findById (students st') i = Some (assign_fields r b))"
proof -
  have o: "oid (assign_fields r b) = i"
    using found by (simp add: oid_assign_fields findById_oid)
  show ?thesis
    using found findById_replace [OF found o]
    by (auto simp add: updateRecord_def Let_def save_existing_def respond_def respond_error_def
        split: option.splits)
qed

lemma assign_fields_keeps:
  assumes "schema_trimmed r"
  shows "(\<not> truthy_string (body_studentId b) \<longrightarrow> studentId (assign_fields r b) = studentId r) \<and>
     (\<not> truthy_string (body_studentName b) \<longrightarrow> studentName (assign_fields r b) = studentName r) \<and>
     (\<not> truthy_string (body_courseCode b) \<longrightarrow> courseCode (assign_fields r b) = courseCode r) \<and>
     (\<not> truthy_string (body_courseName b) \<longrightarrow> courseName (assign_fields r b) = courseName r) \<and>
     (\<not> truthy_string (body_grade b) \<longrightarrow> grade (assign_fields r b) = grade r) \<and>
     (body_numericGrade b = None \<longrightarrow> numericGrade (assign_fields r b) = numericGrade r) \<and>
     (\<not> truthy_string (body_instructor b) \<longrightarrow> instructor (assign_fields r b) = instructor r) \<and>
     (\<not> truthy_number (body_yearCompleted b) \<longrightarrow> yearCompleted (assign_fields r b) = yearCompleted r) \<and>
     (\<not> truthy_string (body_semester b) \<longrightarrow> semester (assign_fields r b) = semester r) \<and>
     (\<not> truthy_string (body_session b) \<longrightarrow> session (assign_fields r b) = session r) \<and>
     (body_updatedBy b = None \<longrightarrow> updatedBy (assign_fields r b) = updatedBy r) \<and>
     (\<not> truthy_string (body_editedBy b) \<longrightarrow> editedBy (assign_fields r b) = editedBy r)"
  using assms
  by (simp add: assign_fields_def schema_trimmed_def truthy_string_def truthy_number_def
      or_string_def or_number_def or_string_opt_def defined_or_def split: option.splits)

text \<open>
  C3, as amended. After \<^verbatim>\<open>updateRecord\<close> on a record that exists, whatever the
  outcome, a field whose payload value is falsy (\<open>undefined\<close>, the empty string, or
  zero for \<open>yearCompleted\<close>) has the value it had; \<open>numericGrade\<close> keeps its value
  when the payload has none, and takes the payload's value, zero included, when the
  update succeeds.
\<close>

theorem update_keeps_unsupplied_fields:
  assumes found: "findById (students st) i = Some r"
    and trimmed: "schema_trimmed r"
  shows "\<exists>r'. findById (students (fst (updateRecord ymax st (WellFormed i) b))) i = Some r' \<and>
     (\<not> truthy_string (body_studentId b) \<longrightarrow> studentId r' = studentId r) \<and>
     (\<not> truthy_string (body_studentName b) \<longrightarrow> studentName r' = studentName r) \<and>
     (\<not> truthy_string (body_courseCode b) \<longrightarrow> courseCode r' = courseCode r) \<and>
     (\<not> truthy_string (body_courseName b) \<longrightarrow> courseName r' = courseName r) \<and>
     (\<not> truthy_string (body_grade b) \<longrightarrow> grade r' = grade r) \<and>
     (body_numericGrade b = None \<longrightarrow> numericGrade r' = numericGrade r) \<and>
     (\<not> truthy_string (body_instructor b) \<longrightarrow> instructor r' = instructor r) \<and>
     (\<not> truthy_number (body_yearCompleted b) \<longrightarrow> yearCompleted r' = yearCompleted r) \<and>
     (\<not> truthy_string (body_semester b) \<longrightarrow> semester r' = semester r) \<and>
     (\<not> truthy_string (body_session b) \<longrightarrow> session r' = session r) \<and>
     (body_updatedBy b = None \<longrightarrow> updatedBy r' = updatedBy r) \<and>
     (\<not> truthy_string (body_editedBy b) \<longrightarrow> editedBy r' = editedBy r) \<and>
     (\<forall>n. body_numericGrade b = Some n \<and>
          status (snd (updateRecord ymax st (WellFormed i) b)) = 200 \<longrightarrow> numericGrade r' = n)"
proof -
  from updateRecord_outcomes [OF found, of ymax b]
  consider (refused) resp where "updateRecord ymax st (WellFormed i) b = (st, resp)" "status resp \<noteq> 200"
    | (saved) st' where "updateRecord ymax st (WellFormed i) b =
          (st', respond_data 200 ''Student record updated successfully'' (assign_fields r b))"
        "findById (students st') i = Some (assign_fields r b)"
    by blast
  then show ?thesis
  proof cases
    case refused
    then show ?thesis using found by simp
  next
    case saved
    have ng: "\<forall>n. body_numericGrade b = Some n \<longrightarrow> numericGrade (assign_fields r b) = n"
      by (simp add: assign_fields_def defined_or_def)
    show ?thesis
      using saved assign_fields_keeps [OF trimmed, of b] ng by simp
  qed
qed


text \<open>
  C3 as stated fails: a payload with \<^verbatim>\<open>numericGrade: 0\<close> replaces the stored 95.
\<close>

theorem update_numericGrade_zero_overwrites:
  "map_option numericGrade (findById (students one_record_db) 0) = Some 95 \<and>
   body_numericGrade zero_grade_payload = Some 0 \<and>
   map_option numericGrade
     (findById (students (fst (updateRecord 2024 one_record_db (WellFormed 0) zero_grade_payload))) 0)
     = Some 0"
  by (simp add: updateRecord_def zero_grade_payload_def example_eval)

theorem update_keeps_unsupplied_fields_witness:
  "\<exists>r'. findById (students (fst (updateRecord 2024 one_record_db (WellFormed 0) falsy_payload))) 0
            = Some r' \<and>
        studentId r' = ''S1'' \<and> studentName r' = ''Ada'' \<and> courseCode r' = ''PHYS101'' \<and>
        instructor r' = ''Unknown'' \<and> yearCompleted r' = 2020 \<and> semester r' = ''First'' \<and>
        numericGrade r' = 0"
proof -
  let ?r = "new_record 2024 0 example_payload"
  have found: "findById (students one_record_db) 0 = Some ?r"
    by (simp add: one_record_db_def empty_db_def findById_def new_record_def)
  have trimmed: "schema_trimmed ?r"
    by (simp add: schema_trimmed_def example_eval)
  have ok: "status (snd (updateRecord 2024 one_record_db (WellFormed 0) falsy_payload)) = 200"
    by (simp add: updateRecord_def falsy_payload_def respond_data_def example_eval)
  have old: "studentId ?r = ''S1''" "studentName ?r = ''Ada''" "courseCode ?r = ''PHYS101''"
    "instructor ?r = ''Unknown''" "yearCompleted ?r = 2020" "semester ?r = ''First''"
    by (simp_all add: example_eval)
  have falsy: "\<not> truthy_string (body_studentId falsy_payload)"
    "\<not> truthy_string (body_studentName falsy_payload)"
    "\<not> truthy_string (body_courseCode falsy_payload)"
    "\<not> truthy_string (body_instructor falsy_payload)"
    "\<not> truthy_number (body_yearCompleted falsy_payload)"
    "\<not> truthy_string (body_semester falsy_payload)"
    "body_numericGrade falsy_payload = Some 0"
    by (simp_all add: falsy_payload_def truthy_string_def truthy_number_def)
  from update_keeps_unsupplied_fields [OF found trimmed, of 2024 falsy_payload]
  show ?thesis
    using ok old falsy by auto
qed




text \<open>A payload with \<open>studentId\<close> alone does not reach the handler.\<close>

lemma put_student_route_partial_payload:
  "put_student_route 2024 2024 two_record_db (WellFormed 0) only_studentId_payload =
     (two_record_db, respond 400 False ''Validation error'')"
  by (simp add: put_student_route_def validateStudentRecord_def student_errors_def
      only_studentId_payload_def truthy_string_def truthy_number_def)



subsection \<open>Cleaning up the activity log\<close>


text \<open>In a zone without transitions the cutoff is \<open>now\<close> minus \<open>d\<close> times 24 hours.\<close>

lemma days_before_fixed_offset:
  assumes "\<And>t b. LocalTZA t b = offset"
  shows "days_before LocalTZA now d = now - d * ms_per_day"
  by (simp add: days_before_def UTC_def LocalTime_def assms)

text \<open>
  Across the end of daylight-saving time the cutoff of thirty days is 721 hours before
  \<open>now\<close>.
\<close>

lemma days_before_new_york:
  "days_before new_york_2023 example_now 30 = 1697404400000 \<and>
   example_now - 1697404400000 = 721 * 3600000"
  by (simp add: days_before_def UTC_def LocalTime_def new_york_2023_def example_now_def
      ms_per_day_def)




subsection \<open>Logging in\<close>

text \<open>Without a user for the pair the handler answers 401 before it looks at the password.\<close>

lemma login_no_user:
  assumes "findOne_user (users st) (login_username b) (login_userType b) = None"
  shows "login hashPassword now ip st sess b = (st, sess, respond 401 False ''Invalid credentials'')"
  using assms by (simp add: login_def)

lemma unique_username_no_other_type:
  assumes u: "u \<in> set us" and uniq: "distinct (map username us)"
    and trimmed: "trim (username u) = username u"
    and t: "ut \<noteq> Some (Plain (userType u))" and string: "\<And>t. ut \<noteq> Some (Ne t)"
  shows "findOne_user us (Some (Plain (username u))) ut = None"
proof -
  have "\<not> user_matches (Some (Plain (username u))) ut x" if x: "x \<in> set us" for x
  proof
    assume m: "user_matches (Some (Plain (username u))) ut x"
    then obtain t' where ut: "ut = Some (Plain t')" and n: "username x = username u"
      and ty: "userType x = t'"
      using trimmed string
      by (auto simp add: user_matches_def condition_holds_def split: option.splits field_value.splits)
    have "inj_on username (set us)" using uniq by (simp add: distinct_map)
    then have "x = u" using n x u by (auto dest: inj_onD)
    then show False using t ut ty by simp
  qed
  then show ?thesis by (auto simp add: findOne_user_def find_None_iff)
qed

text \<open>
  Usernames are unique and stored trimmed. A login that gives a stored user's username
  and, as a string, a user type other than the stored one finds no user, and the answer
  is 401 with \<^verbatim>\<open>Invalid credentials\<close>, whatever the password and the hash function; the
  database (so \<open>lastLogin\<close>) and the session are the ones before the request.
\<close>

lemma login_other_userType_string_rejected:
  assumes u: "u \<in> set (users st)" and uniq: "distinct (map username (users st))"
    and trimmed: "trim (username u) = username u"
    and name: "login_username b = Some (Plain (username u))"
    and type: "login_userType b \<noteq> Some (Plain (userType u))"
    and string: "\<And>t. login_userType b \<noteq> Some (Ne t)"
  shows "findOne_user (users st) (login_username b) (login_userType b) = None \<and>
         (\<forall>hashPassword password.
            login hashPassword now ip st sess (b\<lparr>login_password := password\<rparr>) =
              (st, sess, respond 401 False ''Invalid credentials''))"
proof -
  have none: "findOne_user (users st) (login_username b) (login_userType b) = None"
    using unique_username_no_other_type [OF u uniq trimmed type string] name by simp
  then show ?thesis by (simp add: login_no_user)
qed

lemma login_instructor_rejected:
  "login_route example_hash 1000 None alice_db None
       \<lparr>login_username = Some (Plain ''alice''), login_password = Some ''secret'',
        login_userType = Some (Plain ''instructor'')\<rparr> =
     (alice_db, None, respond 401 False ''Invalid credentials'')"
  by (simp add: login_route_def validateLogin_def login_errors_def truthy_field_def
      truthy_string_def login_def findOne_user_def user_matches_def condition_holds_def
      alice_db_def empty_db_def alice_def trim_def is_space_def)

text \<open>
  C9. The handler passes \<^verbatim>\<open>req.body.userType\<close> to the filter as it is, and
  \<^verbatim>\<open>validateLogin\<close> tests only that it is truthy. Alice is stored as an admin. A
  request with her username and password and the object \<^verbatim>\<open>{"$ne": "instructor"}\<close> as
  user type gives no user type at all; the filter selects her, the password is verified,
  and the answer is 200 with her session established and \<open>lastLogin\<close> updated.
\<close>

theorem login_operator_userType_accepted:
  "userType alice = ''admin'' \<and>
   login_userType operator_login = Some (Ne ''instructor'') \<and>
   login_route example_hash 1000 None alice_db None operator_login =
     (alice_db
        \<lparr>users := [alice\<lparr>lastLogin := Some 1000\<rparr>],
         logs := [\<lparr>log_user = Some 0, log_username = Some ''Alice'', log_userType = Some ''admin'',
                   log_action = Some ''LOGIN'', log_details = [(''timestamp'', Date 1000)],
                   log_ipAddress = None, log_timestamp = 1000\<rparr>]\<rparr>,
      Some \<lparr>session_id = 0, session_username = ''alice'', session_userType = ''admin'',
            session_name = ''Alice''\<rparr>,
      respond_data 200 ''Login successful''
        \<lparr>data_id = 0, data_username = ''alice'', data_userType = ''admin'',
         data_name = ''Alice'', data_email = ''alice@example.org''\<rparr>)"
  by (simp add: login_route_def validateLogin_def login_errors_def truthy_field_def
      truthy_string_def login_def findOne_user_def user_matches_def condition_holds_def
      verifyPassword_def example_hash_def save_log_def validate_log_def or_string_def
      operator_login_def alice_db_def empty_db_def alice_def trim_def is_space_def Let_def)

subsection \<open>Text filters of the record list\<close>

lemma in_escape_class_not_alnum: "in_escape_class c \<Longrightarrow> \<not> is_alnum c"
  by (auto simp add: in_escape_class_def is_alnum_def)

lemma escaped_in_class: "in_escape_class c \<Longrightarrow> escaped c = Atom (Char c)"
  by (simp add: escaped_def in_escape_class_not_alnum)

lemma unescaped_outside_class: "\<not> in_escape_class c \<Longrightarrow> unescaped c = Atom (Char c)"
  by (auto simp add: unescaped_def in_escape_class_def)

lemma tokens_plain: "c \<noteq> CHR 0x5C \<Longrightarrow> tokens (c # cs) = unescaped c # tokens cs"
  by (cases cs) simp_all

lemma tokens_escape_term: "tokens (escape_term t) = map (\<lambda>c. Atom (Char c)) t"
proof (induction t)
  case Nil
  show ?case by simp
next
  case (Cons c cs)
  show ?case
  proof (cases "in_escape_class c")
    case True
    then show ?thesis using Cons.IH by (simp add: escaped_in_class)
  next
    case False
    then have "c \<noteq> CHR 0x5C" by (auto simp add: in_escape_class_def)
    then show ?thesis using False Cons.IH by (simp add: tokens_plain unescaped_outside_class)
  qed
qed

lemma parse_characters: "parse (map (\<lambda>c. Atom (Char c)) t) = Some (map (\<lambda>c. (Char c, Once)) t)"
proof (induction t)
  case Nil
  show ?case by simp
next
  case (Cons c cs)
  then show ?case by (cases cs) simp_all
qed

lemma match_here_characters:
  "match_here canon (map (\<lambda>c. (Char c, Once)) t) v = prefix (map canon t) (map canon v)"
proof (induction t arbitrary: v)
  case Nil
  show ?case by simp
next
  case (Cons c cs)
  show ?case by (cases v) (simp_all add: Cons.IH)
qed

lemma search_characters:
  "search canon (map (\<lambda>c. (Char c, Once)) t) v = sublist (map canon t) (map canon v)"
proof (induction v)
  case Nil
  show ?case by (simp add: match_here_characters)
next
  case (Cons x xs)
  show ?case
    by (simp add: match_here_characters Cons.IH sublist_Cons_right)
qed

lemma createSafeRegex_literal: "createSafeRegex (Str t) = Inr (map (\<lambda>c. (Char c, Once)) t)"
  by (simp add: createSafeRegex_def RegExp_def tokens_escape_term parse_characters)

lemma text_condition_spec:
  assumes "string_valued q"
  shows "\<exists>c. text_condition q = Inr c \<and> (\<forall>v. regex_condition canon c v = text_key_spec canon q v)"
proof (cases q)
  case None
  then show ?thesis
    by (simp add: text_condition_def truthy_value_def regex_condition_def text_key_spec_def)
next
  case (Some x)
  then obtain t where "q = Some (Str t)"
    using assms by (cases x) (simp_all add: string_valued_def)
  then show ?thesis
    by (simp add: text_condition_def truthy_value_def regex_condition_def text_key_spec_def
        contains_ci_def createSafeRegex_literal search_characters)
qed

lemma exact_condition_spec:
  "(case exact_condition q of None \<Rightarrow> True | Some g \<Rightarrow> v = trim g) = exact_key_spec q v"
  by (cases q) (simp_all add: exact_condition_def exact_key_spec_def truthy_string_def)

lemma year_condition_spec:
  assumes "\<not> truthy_string q \<or> (\<exists>t y. q = Some t \<and> parseInt t = Some y)"
  shows "(case exact_condition q of None \<Rightarrow> None | Some y \<Rightarrow> Some (parseInt y)) \<noteq> Some None \<and>
         (case (case exact_condition q of None \<Rightarrow> None | Some y \<Rightarrow> Some (parseInt y)) of
            None \<Rightarrow> True | Some None \<Rightarrow> False | Some (Some y) \<Rightarrow> v = of_int y)
           = year_key_spec q v"
  using assms
  by (cases q) (auto simp add: exact_condition_def year_key_spec_def truthy_string_def)

text \<open>
  For every string, \<^verbatim>\<open>createSafeRegex\<close> gives a regular expression (the constructor
  does not throw), and the expression is found in a string exactly when the string
  contains the input under case folding. When every text key that is given is a string,
  and the \<open>yearCompleted\<close> parameter, when given, starts with a number, the handler
  answers 200 with exactly the records the specification's filter selects.
\<close>

lemma string_terms_match_literally:
  assumes year: "\<not> truthy_string (query_yearCompleted q) \<or>
                 (\<exists>t y. query_yearCompleted q = Some t \<and> parseInt t = Some y)"
    and strings: "string_valued (query_courseCode q)" "string_valued (query_studentId q)"
      "string_valued (query_studentName q)" "string_valued (query_instructor q)"
  shows "(\<forall>t v. \<exists>r. createSafeRegex (Str t) = Inr r \<and> search canon r v = contains_ci canon t v) \<and>
         getAllRecords canon st q =
           respond_data 200 [] (filter (list_filter_spec canon q) (students st))"
proof
  show "\<forall>t v. \<exists>r. createSafeRegex (Str t) = Inr r \<and> search canon r v = contains_ci canon t v"
    by (simp add: createSafeRegex_literal search_characters contains_ci_def)
next
  from text_condition_spec [OF strings(1), of canon]
  obtain cc where cc: "text_condition (query_courseCode q) = Inr cc"
    "\<forall>v. regex_condition canon cc v = text_key_spec canon (query_courseCode q) v"
    by blast
  from text_condition_spec [OF strings(2), of canon]
  obtain sid where sid: "text_condition (query_studentId q) = Inr sid"
    "\<forall>v. regex_condition canon sid v = text_key_spec canon (query_studentId q) v"
    by blast
  from text_condition_spec [OF strings(3), of canon]
  obtain sn where sn: "text_condition (query_studentName q) = Inr sn"
    "\<forall>v. regex_condition canon sn v = text_key_spec canon (query_studentName q) v"
    by blast
  from text_condition_spec [OF strings(4), of canon]
  obtain ins where ins: "text_condition (query_instructor q) = Inr ins"
    "\<forall>v. regex_condition canon ins v = text_key_spec canon (query_instructor q) v"
    by blast
  let ?y = "case exact_condition (query_yearCompleted q) of None \<Rightarrow> None
            | Some y \<Rightarrow> Some (parseInt y)"
  let ?f = "\<lparr>filter_courseCode = cc, filter_studentId = sid, filter_studentName = sn,
             filter_instructor = ins, filter_grade = exact_condition (query_grade q),
             filter_yearCompleted = ?y,
             filter_semester = exact_condition (query_semester q)\<rparr>"
  have f: "build_filter q = Inr ?f"
    by (simp add: build_filter_def cc sid sn ins)
  have y: "?y \<noteq> Some None"
    using year_condition_spec [OF year] by blast
  have m: "matches_filter canon ?f r = list_filter_spec canon q r" for r
    using year_condition_spec [OF year, of "yearCompleted r"]
    by (simp add: matches_filter_def list_filter_spec_def cc sid sn ins exact_condition_spec)
  then have "filter (matches_filter canon ?f) (students st) =
             filter (list_filter_spec canon q) (students st)"
    by (simp cong: filter_cong)
  then show "getAllRecords canon st q =
      respond_data 200 [] (filter (list_filter_spec canon q) (students st))"
    using f y by (simp add: getAllRecords_def)
qed

lemma trim_examples3:
  "trim ''Liam O'Brien'' = ''Liam O'Brien''" "trim ''Nora O'Brien'' = ''Nora O'Brien''"
  "trim ''Prof A+B'' = ''Prof A+B''" "trim ''Prof AAB'' = ''Prof AAB''"
  by (simp_all add: trim_def is_space_def)

text \<open>Without the escaping, the same input is a pattern: \<^verbatim>\<open>+\<close> repeats the \<^verbatim>\<open>a\<close>.\<close>

lemma unescaped_plus_is_a_quantifier:
  "RegExp ''a+b'' = Some [(Char CHR ''a'', OneOrMore), (Char CHR ''b'', Once)] \<and>
   search ascii_upper [(Char CHR ''a'', OneOrMore), (Char CHR ''b'', Once)] ''Prof AAB'' \<and>
   \<not> search ascii_upper [(Char CHR ''a'', OneOrMore), (Char CHR ''b'', Once)] ''Prof A+B''"
  by (simp add: RegExp_def unescaped_def ascii_upper_def)

text \<open>With the escaping, \<^verbatim>\<open>a+b\<close> and \<^verbatim>\<open>o'brien\<close> select the one record that contains both.\<close>

lemma string_terms_example:
  "(\<exists>r. createSafeRegex (Str ''a+b'') = Inr r \<and> search ascii_upper r ''Prof A+B'' \<and>
        \<not> search ascii_upper r ''Prof AAB'') \<and>
   getAllRecords ascii_upper list_db literal_query = respond_data 200 [] [obrien_record]"
proof -
  have y: "\<not> truthy_string (query_yearCompleted literal_query) \<or>
           (\<exists>t y. query_yearCompleted literal_query = Some t \<and> parseInt t = Some y)"
    by (simp add: literal_query_def parseInt_def strip_sign_def strip_radix_def digit_of_def
        is_space_def)
  have s: "string_valued (query_courseCode literal_query)"
    "string_valued (query_studentId literal_query)"
    "string_valued (query_studentName literal_query)"
    "string_valued (query_instructor literal_query)"
    by (simp_all add: literal_query_def string_valued_def)
  have c1: "contains_ci ascii_upper ''a+b'' ''Prof A+B''"
    and c2: "\<not> contains_ci ascii_upper ''a+b'' ''Prof AAB''"
    by (simp_all add: contains_ci_def ascii_upper_def sublist_code(3))
  have sel: "filter (list_filter_spec ascii_upper literal_query) (students list_db) = [obrien_record]"
    by (simp add: list_filter_spec_def literal_query_def list_db_def empty_db_def
        obrien_record_def aab_record_def new_record_def example_payload_def second_payload_def
        text_key_spec_def exact_key_spec_def year_key_spec_def contains_ci_def ascii_upper_def
        sublist_code(3) or_string_def or_number_def defined_or_def trim_examples
        trim_examples3 parseInt_def strip_sign_def strip_radix_def digit_of_def is_space_def)
  from string_terms_match_literally [OF y s, of ascii_upper list_db]
  have a: "\<forall>t v. \<exists>r. createSafeRegex (Str t) = Inr r \<and> search ascii_upper r v = contains_ci ascii_upper t v"
    and b: "getAllRecords ascii_upper list_db literal_query =
           respond_data 200 [] (filter (list_filter_spec ascii_upper literal_query) (students list_db))"
    by blast+
  from a obtain r where r: "createSafeRegex (Str ''a+b'') = Inr r"
    by blast
  have "search ascii_upper r v = contains_ci ascii_upper ''a+b'' v" for v
    using a r by (metis sum.inject(2))
  then have "search ascii_upper r ''Prof A+B'' \<and> \<not> search ascii_upper r ''Prof AAB''"
    using c1 c2 by blast
  then have "\<exists>r. createSafeRegex (Str ''a+b'') = Inr r \<and> search ascii_upper r ''Prof A+B'' \<and>
        \<not> search ascii_upper r ''Prof AAB''"
    using r by blast
  then show ?thesis using b unfolding sel by (rule conjI)
qed

text \<open>
  C5. The claim fails in both snapshots of the record list. In the one with
  \<^verbatim>\<open>createSafeRegex\<close>, a text key that is given twice reaches the function as an
  array, \<^verbatim>\<open>term.replace\<close> throws, and the handler answers 500. In the one without, the
  text keys are compared by equality: the instructor of a stored record contains
  \<^verbatim>\<open>a+b\<close>, and the request for \<^verbatim>\<open>a+b\<close> selects no record.
\<close>

theorem text_filter_throws_or_compares_by_equality:
  "query_instructor repeated_key_query = Some (Arr [Str ''a'', Str ''b'']) \<and>
   getAllRecords ascii_upper list_db repeated_key_query =
     respond_error ''Error fetching student records'' TypeError \<and>
   obrien_record \<in> set (students list_db) \<and>
   contains_ci ascii_upper ''a+b'' (instructor obrien_record) \<and>
   eq_instructor instructor_query = Some ''a+b'' \<and>
   getAllRecords_equality list_db instructor_query = respond_data 200 [] []"
proof -
  have "getAllRecords ascii_upper list_db repeated_key_query =
     respond_error ''Error fetching student records'' TypeError"
    by (simp add: getAllRecords_def build_filter_def text_condition_def truthy_value_def
        createSafeRegex_def repeated_key_query_def)
  moreover have "contains_ci ascii_upper ''a+b'' (instructor obrien_record)"
    by (simp add: contains_ci_def ascii_upper_def sublist_code(3) obrien_record_def
        new_record_def example_payload_def or_string_def trim_examples3)
  moreover have "getAllRecords_equality list_db instructor_query = respond_data 200 [] []"
    by (simp add: getAllRecords_equality_def Let_def exact_condition_def truthy_string_def
        instructor_query_def list_db_def empty_db_def obrien_record_def aab_record_def
        new_record_def example_payload_def second_payload_def or_string_def or_number_def
        defined_or_def trim_examples trim_examples3 trim_def is_space_def)
  ultimately show ?thesis
    by (simp add: repeated_key_query_def instructor_query_def list_db_def empty_db_def)
qed

subsection \<open>The invariant of the StudentRecord collection\<close>

text \<open>
  Every handler that writes to the collection keeps the invariant, so from the empty
  database on at most one record exists for a (studentId, courseCode) pair.
\<close>

lemma empty_db_ok: "store_ok empty_db"
  by (simp add: store_ok_def empty_db_def)

lemma save_new_ok:
  assumes ok: "store_ok st" and r: "oid r = next_oid st" "schema_trimmed r"
    and s: "save_new ymax (st\<lparr>next_oid := Suc (next_oid st)\<rparr>) r = Inr st'"
  shows "store_ok st'"
proof -
  have nc: "\<not> index_conflict (students st) r"
    and st': "st' = st\<lparr>next_oid := Suc (next_oid st), students := students st @ [r]\<rparr>"
    using s by (auto simp add: save_new_def split: if_splits)
  have below: "\<forall>x\<in>set (students st). oid x < next_oid st"
    using ok by (simp add: store_ok_def list_all_iff)
  then have fresh: "oid r \<notin> oid ` set (students st)"
    using r by auto
  have "record_key x \<noteq> record_key r" if x: "x \<in> set (students st)" for x
  proof -
    have "oid x \<noteq> oid r" using below x r by auto
    then show ?thesis
      using nc x by (auto simp add: index_conflict_def list_ex_iff record_key_def)
  qed
  then have key: "record_key r \<notin> record_key ` set (students st)"
    by (metis imageE)
  show ?thesis
    using ok r fresh key below unfolding st'
    by (auto simp add: store_ok_def list_all_iff less_Suc_eq)
qed

lemma createRecord_ok:
  assumes "store_ok st"
  shows "store_ok (fst (createRecord ymax cy st b))"
proof (cases "findOne (students st) (body_studentId b) (body_courseCode b)")
  case (Some existing)
  then show ?thesis using assms by (simp add: createRecord_def)
next
  case None
  show ?thesis
  proof (cases "save_new ymax (st\<lparr>next_oid := Suc (next_oid st)\<rparr>) (new_record cy (next_oid st) b)")
    case (Inl e)
    then show ?thesis
      using assms None
      by (auto simp add: createRecord_def Let_def store_ok_def list_all_iff less_Suc_eq)
  next
    case (Inr st')
    have "store_ok st'"
      using assms _ _ Inr by (rule save_new_ok) (simp_all add: new_record_trimmed, simp add: new_record_def)
    then show ?thesis using None Inr by (simp add: createRecord_def Let_def)
  qed
qed

lemma replace_keeps_oids:
  "oid r' = i \<Longrightarrow> map oid (map (\<lambda>x. if oid x = i then r' else x) rs) = map oid rs"
  by (induction rs) auto

lemma replace_keeps_keys_distinct:
  assumes "distinct (map oid rs)" "distinct (map record_key rs)"
    and "\<forall>x\<in>set rs. oid x \<noteq> i \<longrightarrow> record_key x \<noteq> record_key r'"
  shows "distinct (map record_key (map (\<lambda>x. if oid x = i then r' else x) rs))"
  using assms
proof (induction rs)
  case Nil
  then show ?case by simp
next
  case (Cons x xs)
  then show ?case by (auto simp add: image_iff) 
qed

lemma save_existing_ok:
  assumes ok: "store_ok st" and r: "oid r \<in> oid ` set (students st)" "schema_trimmed r"
    and s: "save_existing ymax st r = Inr st'"
  shows "store_ok st'"
proof -
  have nc: "\<not> index_conflict (students st) r"
    and st': "st' = st\<lparr>students := map (\<lambda>x. if oid x = oid r then r else x) (students st)\<rparr>"
    using s by (auto simp add: save_existing_def split: if_splits)
  have k: "\<forall>x\<in>set (students st). oid x \<noteq> oid r \<longrightarrow> record_key x \<noteq> record_key r"
    using nc by (auto simp add: index_conflict_def list_ex_iff record_key_def)
  have d: "distinct (map record_key (map (\<lambda>x. if oid x = oid r then r else x) (students st)))"
    using ok k by (intro replace_keeps_keys_distinct) (simp_all add: store_ok_def)
  have o: "map oid (map (\<lambda>x. if oid x = oid r then r else x) (students st)) = map oid (students st)"
    by (rule replace_keeps_oids) simp
  have b: "list_all (\<lambda>x. oid x < next_oid st) (map (\<lambda>x. if oid x = oid r then r else x) (students st))"
    using ok by (auto simp add: store_ok_def list_all_iff)
  have t: "list_all schema_trimmed (map (\<lambda>x. if oid x = oid r then r else x) (students st))"
    using ok r by (auto simp add: store_ok_def list_all_iff)
  show ?thesis
    unfolding st' using ok d o b t by (simp add: store_ok_def del: map_map)
qed


lemma find_Some_set: "find P xs = Some x \<Longrightarrow> x \<in> set xs \<and> P x"
  by (induction xs) (auto split: if_splits)

lemma updateRecord_ok:
  assumes ok: "store_ok st"
  shows "store_ok (fst (updateRecord ymax st idp b))"
proof (cases idp)
  case Malformed
  then show ?thesis using ok by (simp add: updateRecord_def)
next
  case (WellFormed i)
  show ?thesis
  proof (cases "findById (students st) i")
    case None
    then show ?thesis using ok WellFormed by (simp add: updateRecord_def)
  next
    case (Some r)
    then have r: "r \<in> set (students st)" "oid r = i"
      by (auto simp add: findById_def dest: find_Some_set)
    have t: "schema_trimmed (assign_fields r b)"
      by (rule assign_fields_trimmed)
    have o: "oid (assign_fields r b) \<in> oid ` set (students st)"
      using r by (auto simp add: assign_fields_def)
    have "store_ok st'" if "save_existing ymax st (assign_fields r b) = Inr st'" for st'
      using ok o t that by (rule save_existing_ok)
    then show ?thesis
      using ok WellFormed Some
      by (auto simp add: updateRecord_def Let_def split: option.splits sum.splits)
  qed
qed

lemma delete_first_subset: "set (delete_first i rs) \<subseteq> set rs"
  by (induction rs) auto

lemma delete_first_distinct: "distinct (map f rs) \<Longrightarrow> distinct (map f (delete_first i rs))"
proof (induction rs)
  case Nil
  then show ?case by simp
next
  case (Cons r rs)
  then show ?case using delete_first_subset [of i rs] by auto
qed

lemma deleteRecord_ok:
  assumes ok: "store_ok st"
  shows "store_ok (fst (deleteRecord st idp))"
  using ok delete_first_subset [of _ "students st"]
  by (auto simp add: deleteRecord_def store_ok_def list_all_iff delete_first_distinct
      split: id_param.splits option.splits)

lemma process_item_ok:
  assumes ok: "store_ok st" and p: "process_item ymax cy st res it = Inr (st', res')"
  shows "store_ok st'"
proof (cases it)
  case None
  then show ?thesis using p by (simp add: process_item_def)
next
  case (Some item)
  show ?thesis
  proof (cases "findOne (students st) (body_studentId item) (body_courseCode item)")
    case (Some r)
    then have r: "r \<in> set (students st)"
      by (auto simp add: findOne_def dest: find_Some_set)
    then have t: "schema_trimmed (bulk_update r item)"
      using ok by (auto simp add: store_ok_def list_all_iff intro: bulk_update_trimmed)
    have o: "oid (bulk_update r item) \<in> oid ` set (students st)"
      using r by (auto simp add: bulk_update_def)
    have "store_ok s'" if "save_existing ymax st (bulk_update r item) = Inr s'" for s'
      using ok o t that by (rule save_existing_ok)
    then show ?thesis
      using ok p Some \<open>it = Some item\<close>
      by (auto simp add: process_item_def split: sum.splits)
  next
    case None
    let ?r = "bulk_new_record cy (next_oid st) item"
    have "store_ok s'" if "save_new ymax (st\<lparr>next_oid := Suc (next_oid st)\<rparr>) ?r = Inr s'" for s'
      using ok _ _ that
      by (rule save_new_ok) (simp_all add: bulk_new_record_trimmed, simp add: bulk_new_record_def)
    moreover have "store_ok (st\<lparr>next_oid := Suc (next_oid st)\<rparr>)"
      using ok by (auto simp add: store_ok_def list_all_iff less_Suc_eq)
    ultimately show ?thesis
      using p None \<open>it = Some item\<close>
      by (auto simp add: process_item_def Let_def split: sum.splits)
  qed
qed

lemma bulk_loop_ok:
  assumes "store_ok st"
  shows "store_ok (fst (bulk_loop ymax cy st res items))"
  using assms
proof (induction items arbitrary: st res)
  case Nil
  then show ?case by simp
next
  case (Cons it items)
  show ?case
  proof (cases "process_item ymax cy st res it")
    case (Inl e)
    then show ?thesis using Cons.prems by simp
  next
    case (Inr p)
    obtain st' res' where p: "p = (st', res')" by (cases p)
    have "store_ok st'" using Cons.prems Inr p by (auto intro: process_item_ok)
    then show ?thesis using Inr p Cons.IH by simp
  qed
qed

lemma bulkUploadRecords_ok:
  assumes "store_ok st"
  shows "store_ok (fst (bulkUploadRecords ymax cy st records))"
  using assms bulk_loop_ok [OF assms, of ymax cy "\<lparr>created = 0, updated = 0, errors = 0, details = []\<rparr>"
      "array_items records"]
  by (auto simp add: bulkUploadRecords_def split: prod.splits sum.splits)

lemma distinct_keys_at_most_one:
  "distinct (map f rs) \<Longrightarrow> length (filter (\<lambda>r. f r = k) rs) \<le> 1"
  by (induction rs) (auto simp add: filter_empty_conv image_iff)

lemma at_most_one_record_per_pair:
  assumes "store_ok st"
  shows "length (filter (\<lambda>r. studentId r = s \<and> courseCode r = c) (students st)) \<le> 1"
proof -
  have "length (filter (\<lambda>r. record_key r = (s, c)) (students st)) \<le> 1"
    using assms by (intro distinct_keys_at_most_one) (simp add: store_ok_def)
  then show ?thesis by (simp add: record_key_def)
qed

end
